theory Spec2Isabelle
  imports Complex_Main "HOL-Library.Word"
begin

unbundle bit_operations_syntax

section \<open>Data model\<close>

text \<open>
  The Python sources compute with \<open>float\<close>, the IEEE 754 binary64 format. Two
  methods branch on comparisons of rounded values, \<open>FormationDrone.move_to_target\<close>
  and \<open>DroneController.takeoff\<close>; they are embedded over the type \<open>double\<close> below,
  with every operation rounded as Python rounds it. The formation patterns only
  build positions and never compare them; they are embedded over the reals, which
  Python's results approximate, and integers that Python converts to float on the
  way (\<open>i\<close>, \<open>len(self.drones)\<close>) are converted with \<open>real\<close>.
\<close>

type_synonym vec3 = "real \<times> real \<times> real"

text \<open>Exceptions of the Python runtime that the embedded code can raise.\<close>

datatype py_error = ZeroDivisionError | ValueError

subsection \<open>Python floats\<close>

text \<open>
  A \<open>float\<close> is a finite number, one of the two infinities, or NaN. \<open>Finite 0\<close>
  stands for both zeros: they compare equal, Python raises on every division by
  either, and no operation of the embedded code tells them apart. \<open>Finite x\<close> is a
  double when \<open>x\<close> is representable, that is when \<open>binary64 x = Finite x\<close>; every
  operation below returns such a value, and what is proved of all \<open>Finite x\<close> holds
  of the doubles among them.

  \<open>binary64 x\<close> is the double nearest to the real \<open>x\<close>, ties to the even
  significand: the significand has 53 bits, the exponent of the binade is at least
  -1022 (below that the spacing stays \<open>2 powi (- 1074)\<close>, the subnormal numbers), and
  a real of magnitude \<open>2 ^ 1024 - 2 ^ 970\<close> or more rounds to an infinity.
\<close>

datatype double = Finite real | PInf | NInf | NaN

type_synonym dvec3 = "double \<times> double \<times> double"

definition round_half_even :: "real \<Rightarrow> int" where
  "round_half_even q =
     (let n = \<lfloor>q\<rfloor> in
      if q - of_int n < 1 / 2 then n
      else if q - of_int n > 1 / 2 then n + 1
      else if even n then n else n + 1)"

definition binade :: "real \<Rightarrow> int" where
  "binade x = (if \<bar>x\<bar> < 2 powi (- 1022) then - 1022 else \<lfloor>log 2 \<bar>x\<bar>\<rfloor>)"

definition overflow_threshold :: real where
  "overflow_threshold = 2 ^ 1024 - 2 ^ 970"

definition binary64 :: "real \<Rightarrow> double" where
  "binary64 x =
     (if \<bar>x\<bar> \<ge> overflow_threshold then (if x > 0 then PInf else NInf)
      else Finite (of_int (round_half_even (x / 2 powi (binade x - 52))) * 2 powi (binade x - 52)))"

text \<open>
  A decimal literal of the source denotes the nearest double. An \<open>int32\<close> field of a
  message is converted to the nearest double (which is the integer itself) when it
  meets a float in an operation.
\<close>

definition literal :: "real \<Rightarrow> double" where
  "literal x = binary64 x"

definition float_of_int32 :: "32 word \<Rightarrow> double" where
  "float_of_int32 w = binary64 (real_of_int (sint w))"

definition signed_inf :: "bool \<Rightarrow> double" where
  "signed_inf positive = (if positive then PInf else NInf)"

fun positive :: "double \<Rightarrow> bool" where
  "positive (Finite a) = (a > 0)"
| "positive PInf = True"
| "positive NInf = False"
| "positive NaN = False"

text \<open>
  Negation and \<open>abs\<close> are exact. \<open>+\<close>, \<open>-\<close> and \<open>*\<close> never raise: they round the
  exact result, and give NaN for \<open>inf - inf\<close> and \<open>0 * inf\<close>.
\<close>

fun fneg :: "double \<Rightarrow> double" where
  "fneg (Finite a) = Finite (- a)"
| "fneg PInf = NInf"
| "fneg NInf = PInf"
| "fneg NaN = NaN"

fun fabs :: "double \<Rightarrow> double" where
  "fabs (Finite a) = Finite \<bar>a\<bar>"
| "fabs PInf = PInf"
| "fabs NInf = PInf"
| "fabs NaN = NaN"

fun fadd :: "double \<Rightarrow> double \<Rightarrow> double" where
  "fadd (Finite a) (Finite b) = binary64 (a + b)"
| "fadd NaN y = NaN"
| "fadd x NaN = NaN"
| "fadd PInf NInf = NaN"
| "fadd NInf PInf = NaN"
| "fadd PInf y = PInf"
| "fadd NInf y = NInf"
| "fadd x PInf = PInf"
| "fadd x NInf = NInf"

definition fsub :: "double \<Rightarrow> double \<Rightarrow> double" where
  "fsub x y = fadd x (fneg y)"

fun fmul :: "double \<Rightarrow> double \<Rightarrow> double" where
  "fmul (Finite a) (Finite b) = binary64 (a * b)"
| "fmul NaN y = NaN"
| "fmul x NaN = NaN"
| "fmul x y = (if x = Finite 0 \<or> y = Finite 0 then NaN else signed_inf (positive x = positive y))"

text \<open>
  \<open>x / y\<close> raises \<open>ZeroDivisionError\<close> whenever \<open>y\<close> is zero, whatever \<open>x\<close> is;
  \<open>math.sqrt\<close> raises \<open>ValueError\<close> on a negative argument.
\<close>

fun truediv :: "double \<Rightarrow> double \<Rightarrow> py_error + double" where
  "truediv x (Finite b) =
     (if b = 0 then Inl ZeroDivisionError
      else Inr (case x of
                  Finite a \<Rightarrow> binary64 (a / b)
                | NaN \<Rightarrow> NaN
                | _ \<Rightarrow> signed_inf (positive x = (b > 0))))"
| "truediv x NaN = Inr NaN"
| "truediv (Finite a) y = Inr (Finite 0)"
| "truediv x y = Inr NaN"


text \<open>
  \<open>flt x y\<close> is \<open>x < y\<close> and \<open>fle x y\<close> is \<open>x <= y\<close>; \<open>x > y\<close> and \<open>x >= y\<close> are
  the same with the arguments exchanged. Every comparison with NaN is false.
  \<open>min(a, b)\<close> keeps \<open>a\<close> unless \<open>b < a\<close>, and \<open>max(a, b)\<close> keeps \<open>a\<close> unless
  \<open>b > a\<close>.
\<close>

fun flt :: "double \<Rightarrow> double \<Rightarrow> bool" where
  "flt (Finite a) (Finite b) = (a < b)"
| "flt NaN y = False"
| "flt x NaN = False"
| "flt NInf y = (y \<noteq> NInf)"
| "flt x PInf = (x \<noteq> PInf)"
| "flt x y = False"

fun fle :: "double \<Rightarrow> double \<Rightarrow> bool" where
  "fle (Finite a) (Finite b) = (a \<le> b)"
| "fle NaN y = False"
| "fle x NaN = False"
| "fle NInf y = True"
| "fle x PInf = True"
| "fle x y = False"

definition py_min :: "double \<Rightarrow> double \<Rightarrow> double" where
  "py_min a b = (if flt b a then b else a)"

definition py_max :: "double \<Rightarrow> double \<Rightarrow> double" where
  "py_max a b = (if flt a b then b else a)"

text \<open>An exception ends the method: the rest runs only on a returned value.\<close>

definition and_then :: "py_error + 'a \<Rightarrow> ('a \<Rightarrow> py_error + 'b) \<Rightarrow> py_error + 'b" where
  "and_then result continue = (case result of Inl raised \<Rightarrow> Inl raised | Inr v \<Rightarrow> continue v)"

subsection \<open>Messages, drones and the controller\<close>

text \<open>A \<open>geometry_msgs/Twist\<close>: \<open>Twist()\<close> has every component \<open>0.0\<close>.\<close>

record twist =
  linear_x :: double
  linear_y :: double
  linear_z :: double
  angular_x :: double
  angular_y :: double
  angular_z :: double

definition Twist :: twist where
  "Twist = \<lparr>linear_x = Finite 0, linear_y = Finite 0, linear_z = Finite 0,
             angular_x = Finite 0, angular_y = Finite 0, angular_z = Finite 0\<rparr>"

text \<open>A \<open>mavros_msgs/State\<close>, as far as the code reads it.\<close>

record State =
  State_connected :: bool
  State_armed :: bool
  State_mode :: string

text \<open>The messages the formation controller hands to its logger.\<close>

datatype log_msg =
    Drone_connected string
  | Drone_lost_connection string
  | Waiting_for_connections
  | All_connected nat
  | Connected_count nat nat
  | Connection_timeout
  | Arming_all
  | Armed string
  | Failed_to_arm string
  | Formation_takeoff real
  | Starting_takeoff string
  | Takeoff_failed string
  | Waiting_for_altitude
  | Takeoff_complete
  | Formation_stopped

datatype log_level = Info | Warn | Error

text \<open>
  Everything a \<open>FormationDrone\<close> or the controller node does to the outside world, in the
  order it happens: a service request sent with \<open>call_async\<close>, a message published on
  the velocity topic, a \<open>time.sleep\<close>, a line given to the logger. The string is
  the \<open>drone_id\<close> of the drone whose client or publisher is used.
\<close>

datatype event =
    SetMode_request string string
  | CommandBool_request string bool
  | CommandTOL_request string real
  | Publish string twist
  | Sleep real
  | Log log_level log_msg

text \<open>
  The far end of one drone's MAVROS services: what \<open>future.result()\<close> holds after
  \<open>spin_until_future_complete\<close> returns. \<open>None\<close> is Python's \<open>None\<close> (the call
  timed out); \<open>Some b\<close> is a response whose \<open>mode_sent\<close> or \<open>success\<close> field is
  \<open>b\<close>. Callbacks that the executor may run while it spins are not represented.
\<close>

record mavros =
  set_mode_result :: "string \<Rightarrow> bool option"
  arming_result :: "bool \<Rightarrow> bool option"
  takeoff_result :: "real \<Rightarrow> bool option"

record drone =
  drone_id :: string
  namespace :: string
  current_state :: State
  connected :: bool
  position :: dvec3
  target_position :: dvec3
  services :: mavros

text \<open>
  \<open>ArduPilotFormationController\<close>. The field \<open>trace\<close> collects the events the node and
  its drones have produced so far.
\<close>

record controller =
  drones :: "drone list"
  formation_active :: bool
  formation_center :: vec3
  current_formation :: string
  formation_spacing :: real
  trace :: "event list"

abbreviation center_x :: "controller \<Rightarrow> real" where
  "center_x c \<equiv> fst (formation_center c)"

abbreviation center_y :: "controller \<Rightarrow> real" where
  "center_y c \<equiv> fst (snd (formation_center c))"

abbreviation center_z :: "controller \<Rightarrow> real" where
  "center_z c \<equiv> snd (snd (formation_center c))"

section \<open>Formation patterns\<close>

text \<open>
  Each loop \<open>for i, drone in enumerate(self.drones)\<close> is a recursion over
  \<^term>\<open>enumerate 0 (drones c)\<close>, each \<open>for i in range(a, len(self.drones))\<close> a
  recursion over \<^term>\<open>[a..<length (drones c)]\<close>; \<open>positions\<close> is the list built so
  far.
\<close>

fun line_loop :: "controller \<Rightarrow> (nat \<times> drone) list \<Rightarrow> vec3 list \<Rightarrow> vec3 list" where
  "line_loop c [] positions = positions"
| "line_loop c ((i, drone) # rest) positions =
     (let spacing = formation_spacing c;
          x = center_x c + (real i - real (length (drones c)) / 2) * spacing;
          y = center_y c;
          z = center_z c
      in line_loop c rest (positions @ [(x, y, z)]))"

definition line_formation :: "controller \<Rightarrow> vec3 list" where
  "line_formation c = line_loop c (enumerate 0 (drones c)) []"

fun triangle_loop :: "controller \<Rightarrow> nat list \<Rightarrow> vec3 list \<Rightarrow> vec3 list" where
  "triangle_loop c [] positions = positions"
| "triangle_loop c (i # rest) positions =
     (let spacing = formation_spacing c;
          x = center_x c - 2 * spacing;
          y = center_y c
                + (real i - 3 - (real (length (drones c)) - 4) / 2) * spacing / 2;
          z = center_z c
      in triangle_loop c rest (positions @ [(x, y, z)]))"

definition triangle_formation :: "controller \<Rightarrow> vec3 list" where
  "triangle_formation c =
     (let spacing = formation_spacing c;
          positions = [];
          positions = (if length (drones c) \<ge> 1
                       then positions @ [(center_x c, center_y c, center_z c)]
                       else positions);
          positions = (if length (drones c) \<ge> 2
                       then positions @ [(center_x c - spacing, center_y c - spacing, center_z c)]
                       else positions);
          positions = (if length (drones c) \<ge> 3
                       then positions @ [(center_x c - spacing, center_y c + spacing, center_z c)]
                       else positions)
      in triangle_loop c [3..<length (drones c)] positions)"

definition square_positions :: "real \<Rightarrow> vec3 list" where
  "square_positions spacing =
     [(spacing / 2, spacing / 2, 0),
      (- spacing / 2, spacing / 2, 0),
      (- spacing / 2, - spacing / 2, 0),
      (spacing / 2, - spacing / 2, 0)]"

fun square_loop :: "controller \<Rightarrow> (nat \<times> drone) list \<Rightarrow> vec3 list \<Rightarrow> vec3 list" where
  "square_loop c [] positions = positions"
| "square_loop c ((i, drone) # rest) positions =
     (if i < 4 then
        (let pos = square_positions (formation_spacing c) ! i;
             x = center_x c + fst pos;
             y = center_y c + fst (snd pos);
             z = center_z c
         in square_loop c rest (positions @ [(x, y, z)]))
      else
        (let x = center_x c;
             y = center_y c;
             z = center_z c + (real i - 3) * 2
         in square_loop c rest (positions @ [(x, y, z)])))"

definition square_formation :: "controller \<Rightarrow> vec3 list" where
  "square_formation c = square_loop c (enumerate 0 (drones c)) []"

text \<open>
  \<open>circle_formation\<close> divides by \<open>len(self.drones)\<close> inside the loop body; Python
  raises \<open>ZeroDivisionError\<close> there when the divisor is zero, so the loop returns
  either the exception or the list.
\<close>

fun circle_loop ::
  "controller \<Rightarrow> (nat \<times> drone) list \<Rightarrow> vec3 list \<Rightarrow> py_error + vec3 list" where
  "circle_loop c [] positions = Inr positions"
| "circle_loop c ((i, drone) # rest) positions =
     (if length (drones c) = 0 then Inl ZeroDivisionError
      else
        (let radius = formation_spacing c;
             angle = (2 * pi * real i) / real (length (drones c));
             x = center_x c + radius * cos angle;
             y = center_y c + radius * sin angle;
             z = center_z c
         in circle_loop c rest (positions @ [(x, y, z)])))"

definition circle_formation :: "controller \<Rightarrow> py_error + vec3 list" where
  "circle_formation c = circle_loop c (enumerate 0 (drones c)) []"

fun diamond_loop :: "controller \<Rightarrow> nat list \<Rightarrow> vec3 list \<Rightarrow> vec3 list" where
  "diamond_loop c [] positions = positions"
| "diamond_loop c (i # rest) positions =
     (let x = center_x c;
          y = center_y c;
          z = center_z c + (real i - 3) * 2
      in diamond_loop c rest (positions @ [(x, y, z)]))"

definition diamond_formation :: "controller \<Rightarrow> vec3 list" where
  "diamond_formation c =
     (let spacing = formation_spacing c;
          positions = [];
          positions = (if length (drones c) \<ge> 1
                       then positions @ [(center_x c + spacing, center_y c, center_z c)]
                       else positions);
          positions = (if length (drones c) \<ge> 2
                       then positions @ [(center_x c, center_y c - spacing, center_z c)]
                       else positions);
          positions = (if length (drones c) \<ge> 3
                       then positions @ [(center_x c, center_y c + spacing, center_z c)]
                       else positions);
          positions = (if length (drones c) \<ge> 4
                       then positions @ [(center_x c - spacing, center_y c, center_z c)]
                       else positions)
      in diamond_loop c [4..<length (drones c)] positions)"

text \<open>
  The dictionary \<open>self.formations\<close>: pattern name to bound method. The four methods
  that cannot raise are lifted with \<open>Inr\<close>.
\<close>

definition formations :: "string \<rightharpoonup> (controller \<Rightarrow> py_error + vec3 list)" where
  "formations =
     [''line'' \<mapsto> (\<lambda>c. Inr (line_formation c)),
      ''triangle'' \<mapsto> (\<lambda>c. Inr (triangle_formation c)),
      ''square'' \<mapsto> (\<lambda>c. Inr (square_formation c)),
      ''circle'' \<mapsto> circle_formation,
      ''diamond'' \<mapsto> (\<lambda>c. Inr (diamond_formation c))]"

section \<open>One drone of the formation\<close>

text \<open>
  The methods of \<open>FormationDrone\<close>. A method returns its Python result together with
  the events it produced; a method that assigns to a field of \<open>self\<close> also returns the
  updated drone. Where Python returns \<open>future.result() and future.result().success\<close>,
  the value is \<open>None\<close>, \<open>False\<close> or \<open>True\<close>, and every caller only tests its truth
  value: the model returns that truth value.
\<close>

definition state_callback :: "drone \<Rightarrow> State \<Rightarrow> drone \<times> event list" where
  "state_callback self msg =
     (let self = self\<lparr>current_state := msg\<rparr> in
      if \<not> connected self \<and> State_connected msg then
        (self\<lparr>connected := True\<rparr>, [Log Info (Drone_connected (drone_id self))])
      else if connected self \<and> \<not> State_connected msg then
        (self\<lparr>connected := False\<rparr>, [Log Warn (Drone_lost_connection (drone_id self))])
      else (self, []))"

definition truthy :: "bool option \<Rightarrow> bool" where
  "truthy result = (case result of None \<Rightarrow> False | Some field \<Rightarrow> field)"

definition FormationDrone_set_mode :: "drone \<Rightarrow> string \<Rightarrow> bool \<times> event list" where
  "FormationDrone_set_mode self mode =
     (if \<not> connected self then (False, [])
      else (truthy (set_mode_result (services self) mode),
            [SetMode_request (drone_id self) mode]))"

definition FormationDrone_arm :: "drone \<Rightarrow> bool \<times> event list" where
  "FormationDrone_arm self =
     (if \<not> connected self then (False, [])
      else (truthy (arming_result (services self) True),
            [CommandBool_request (drone_id self) True]))"

definition FormationDrone_takeoff :: "drone \<Rightarrow> real \<Rightarrow> bool \<times> event list" where
  "FormationDrone_takeoff self altitude =
     (let (mode_ok, events) = FormationDrone_set_mode self ''GUIDED'' in
      if \<not> mode_ok then (False, events)
      else
        (let events = events @ [Sleep 0.5];
             (armed, arm_events) = FormationDrone_arm self;
             events = events @ arm_events
         in if \<not> armed then (False, events)
            else
              (let events = events @ [Sleep 0.5];
                   events = events @ [CommandTOL_request (drone_id self) altitude]
               in (truthy (takeoff_result (services self) altitude), events))))"

definition send_velocity :: "drone \<Rightarrow> double \<Rightarrow> double \<Rightarrow> double \<Rightarrow> double \<Rightarrow> event list" where
  "send_velocity self vx vy vz yaw_rate =
     (let twist = Twist;
          twist = twist\<lparr>linear_x := vx\<rparr>;
          twist = twist\<lparr>linear_y := vy\<rparr>;
          twist = twist\<lparr>linear_z := vz\<rparr>;
          twist = twist\<lparr>angular_z := yaw_rate\<rparr>
      in [Publish (drone_id self) twist])"


definition stop :: "drone \<Rightarrow> event list" where
  "stop self = send_velocity self (Finite 0) (Finite 0) (Finite 0) (literal 0.0)"

section \<open>The formation controller\<close>

definition logger :: "controller \<Rightarrow> log_level \<Rightarrow> log_msg \<Rightarrow> controller" where
  "logger self level msg = self\<lparr>trace := trace self @ [Log level msg]\<rparr>"

text \<open>
  \<open>rclpy.spin_once(self, timeout_sec=1.0)\<close> runs at most one ready callback. The
  callbacks represented are the state subscriptions: \<open>State_message k msg\<close> delivers
  \<open>msg\<close> to the drone at index \<open>k\<close>; \<open>None\<close> is a spin that times out. The control
  timer is not represented.
\<close>

datatype work = State_message nat State

definition spin_once :: "controller \<Rightarrow> work option \<Rightarrow> controller" where
  "spin_once self ready =
     (case ready of
        None \<Rightarrow> self
      | Some (State_message k msg) \<Rightarrow>
          if k < length (drones self) then
            (let (drone, events) = state_callback (drones self ! k) msg
             in self\<lparr>drones := (drones self)[k := drone], trace := trace self @ events\<rparr>)
          else self)"

text \<open>
  \<open>wait_for_connections\<close> reads the clock once for \<open>start_time\<close> and once in every
  evaluation of the loop condition. The environment is given as that first reading
  and, for each evaluation of the condition, the reading of \<open>time.time()\<close> there and
  what \<open>spin_once\<close> finds in that round. When the list ends while the loop is still
  running the model has no answer: the result is \<open>None\<close>.
\<close>

fun wait_loop ::
  "real \<Rightarrow> real \<Rightarrow> (real \<times> work option) list \<Rightarrow> controller \<Rightarrow> bool option \<times> controller" where
  "wait_loop timeout start_time [] self = (None, self)"
| "wait_loop timeout start_time ((now, ready) # rounds) self =
     (if now - start_time < timeout then
        (let connected_count = length (filter connected (drones self)) in
         if connected_count = length (drones self) then
           (Some True, logger self Info (All_connected (length (drones self))))
         else
           (let self = logger self Info (Connected_count connected_count (length (drones self)));
                self = spin_once self ready
            in wait_loop timeout start_time rounds self))
      else (Some False, logger self Error Connection_timeout))"

definition wait_for_connections ::
  "controller \<Rightarrow> real \<Rightarrow> real \<Rightarrow> (real \<times> work option) list \<Rightarrow> bool option \<times> controller" where
  "wait_for_connections self timeout start_time rounds =
     wait_loop timeout start_time rounds (logger self Info Waiting_for_connections)"

fun arm_loop :: "drone list \<Rightarrow> nat \<Rightarrow> controller \<Rightarrow> nat \<times> controller" where
  "arm_loop [] success_count self = (success_count, self)"
| "arm_loop (drone # rest) success_count self =
     (let (armed, events) = FormationDrone_arm drone;
          self = self\<lparr>trace := trace self @ events\<rparr>
      in if armed then
           arm_loop rest (success_count + 1) (logger self Info (Armed (drone_id drone)))
         else
           arm_loop rest success_count (logger self Error (Failed_to_arm (drone_id drone))))"

definition arm_all :: "controller \<Rightarrow> bool \<times> controller" where
  "arm_all self =
     (let self = logger self Info Arming_all;
          (success_count, self) = arm_loop (drones self) 0 self
      in (success_count = length (drones self), self))"

text \<open>
  The loop of \<open>takeoff_formation\<close> leaves through \<open>return False\<close> or runs to its end;
  \<open>takeoff_loop\<close> returns \<open>False\<close> in the first case and \<open>True\<close> in the second.
\<close>

fun takeoff_loop :: "real \<Rightarrow> (nat \<times> drone) list \<Rightarrow> controller \<Rightarrow> bool \<times> controller" where
  "takeoff_loop altitude [] self = (True, self)"
| "takeoff_loop altitude ((i, drone) # rest) self =
     (let self = logger self Info (Starting_takeoff (drone_id drone));
          self = (if i > 0 then self\<lparr>trace := trace self @ [Sleep 1.0]\<rparr> else self);
          (success, events) = FormationDrone_takeoff drone altitude;
          self = self\<lparr>trace := trace self @ events\<rparr>
      in if \<not> success then
           (False, logger self Error (Takeoff_failed (drone_id drone)))
         else takeoff_loop altitude rest self)"

definition takeoff_formation :: "controller \<Rightarrow> real \<Rightarrow> bool \<times> controller" where
  "takeoff_formation self altitude =
     (let self = logger self Info (Formation_takeoff altitude);
          (completed, self) = takeoff_loop altitude (enumerate 0 (drones self)) self
      in if \<not> completed then (False, self)
         else
           (let self = logger self Info Waiting_for_altitude;
                self = self\<lparr>trace := trace self @ [Sleep 10]\<rparr>;
                self = logger self Info Takeoff_complete
            in (True, self)))"

fun stop_loop :: "drone list \<Rightarrow> controller \<Rightarrow> controller" where
  "stop_loop [] self = self"
| "stop_loop (drone # rest) self =
     stop_loop rest (self\<lparr>trace := trace self @ stop drone\<rparr>)"

definition stop_formation :: "controller \<Rightarrow> controller" where
  "stop_formation self =
     (let self = self\<lparr>formation_active := False\<rparr>;
          self = stop_loop (drones self) self
      in logger self Info Formation_stopped)"

section \<open>The single-vehicle controller\<close>

text \<open>
  \<open>DroneController\<close> of \<open>flight_controller.py\<close> talks MAVLink through
  \<open>self.master\<close>. The record keeps the two addressing fields of the connection and
  the messages given to \<open>self.master.mav\<close>, in order.
\<close>

datatype mavlink_message =
    SET_MODE nat nat nat
  | COMMAND_LONG nat nat nat nat "double list"

record DroneController =
  target_system :: nat
  target_component :: nat
  sent :: "mavlink_message list"

text \<open>Constants of the MAVLink common dialect, as \<open>pymavlink\<close> defines them.\<close>

definition MAV_MODE_FLAG_CUSTOM_MODE_ENABLED :: nat where
  "MAV_MODE_FLAG_CUSTOM_MODE_ENABLED = 1"

definition MAV_MODE_FLAG_SAFETY_ARMED :: "8 word" where
  "MAV_MODE_FLAG_SAFETY_ARMED = 128"

definition MAV_CMD_NAV_TAKEOFF :: nat where
  "MAV_CMD_NAV_TAKEOFF = 22"

definition mode_mapping :: "string \<rightharpoonup> nat" where
  "mode_mapping =
     [''STABILIZE'' \<mapsto> 0,
      ''GUIDED'' \<mapsto> 4,
      ''LAND'' \<mapsto> 9,
      ''RTL'' \<mapsto> 6,
      ''LOITER'' \<mapsto> 5]"

definition DroneController_set_mode ::
  "DroneController \<Rightarrow> string \<Rightarrow> bool \<times> DroneController" where
  "DroneController_set_mode self mode =
     (case mode_mapping mode of
        None \<Rightarrow> (False, self)
      | Some custom_mode \<Rightarrow>
          (True, self\<lparr>sent := sent self @
             [SET_MODE (target_system self) MAV_MODE_FLAG_CUSTOM_MODE_ENABLED custom_mode]\<rparr>))"

text \<open>
  The wait loop of \<open>takeoff\<close>, in double arithmetic. One element of the list is one
  evaluation of the loop condition: the reading of \<open>time.time()\<close> there, and the
  result of \<open>recv_match\<close> in that round, \<open>None\<close> when no \<open>GLOBAL_POSITION_INT\<close>
  arrived within the second and otherwise the message's \<open>relative_alt\<close> (millimetres,
  an \<open>int32\<close>). The integers \<open>30\<close> and \<open>0\<close> (the first \<open>last_alt\<close>) meet floats as
  the doubles of the same value, and so does an integer passed for \<open>altitude\<close>. When the list ends while the loop is still running
  the result is \<open>None\<close>; \<open>Some (Inl e)\<close> is an exception, \<open>Some (Inr b)\<close> the return
  of \<open>b\<close>.
\<close>

fun takeoff_wait ::
  "double \<Rightarrow> double \<Rightarrow> nat \<Rightarrow> double \<Rightarrow> (double \<times> 32 word option) list
     \<Rightarrow> (py_error + bool) option" where
  "takeoff_wait altitude start_time stable_count last_alt [] = None"
| "takeoff_wait altitude start_time stable_count last_alt ((now, msg) # rounds) =
     (if flt (fsub now start_time) (Finite 30) then
        (case msg of
           None \<Rightarrow> takeoff_wait altitude start_time stable_count last_alt rounds
         | Some relative_alt \<Rightarrow>
             (case truediv (float_of_int32 relative_alt) (literal 1000.0) of
                Inl raised \<Rightarrow> Some (Inl raised)
              | Inr current_alt \<Rightarrow>
                  if fle (fmul altitude (literal 0.90)) current_alt then Some (Inr True)
                  else if flt (fabs (fsub current_alt last_alt)) (literal 0.1) then
                    (let stable_count = stable_count + 1 in
                     if stable_count \<ge> 3 \<and> fle (fmul altitude (literal 0.85)) current_alt
                     then Some (Inr True)
                     else takeoff_wait altitude start_time stable_count current_alt rounds)
                  else takeoff_wait altitude start_time 0 current_alt rounds))
      else Some (Inr False))"

definition DroneController_takeoff ::
  "DroneController \<Rightarrow> double \<Rightarrow> double \<Rightarrow> (double \<times> 32 word option) list
     \<Rightarrow> (py_error + bool) option \<times> DroneController" where
  "DroneController_takeoff self altitude start_time rounds =
     (let self = self\<lparr>sent := sent self @
            [COMMAND_LONG (target_system self) (target_component self) MAV_CMD_NAV_TAKEOFF 0
               [Finite 0, Finite 0, Finite 0, Finite 0, Finite 0, Finite 0, altitude]]\<rparr>;
          stable_count = 0;
          last_alt = Finite 0
      in (takeoff_wait altitude start_time stable_count last_alt rounds, self))"

text \<open>
  The loop of \<open>land\<close> has no exit but \<open>return True\<close>, so it is a partial function:
  \<open>None\<close> is a call that never returns. \<open>heartbeats n\<close> is what \<open>recv_match\<close> yields
  in round \<open>n\<close>: \<open>None\<close>, or the \<open>base_mode\<close> byte of a \<open>HEARTBEAT\<close>.
\<close>

partial_function (option) land_wait :: "(nat \<Rightarrow> 8 word option) \<Rightarrow> nat \<Rightarrow> bool option" where
  "land_wait heartbeats n =
     (case heartbeats n of
        None \<Rightarrow> land_wait heartbeats (Suc n)
      | Some base_mode \<Rightarrow>
          if \<not> (base_mode AND MAV_MODE_FLAG_SAFETY_ARMED \<noteq> 0) then Some True
          else land_wait heartbeats (Suc n))"

definition DroneController_land ::
  "DroneController \<Rightarrow> (nat \<Rightarrow> 8 word option) \<Rightarrow> (bool \<times> DroneController) option" where
  "DroneController_land self heartbeats =
     (let (mode_set, self) = DroneController_set_mode self ''LAND''
      in map_option (\<lambda>result. (result, self)) (land_wait heartbeats 0))"

section \<open>Sample states\<close>

text \<open>
  A far end that acknowledges every request, and one whose arming service never
  answers; a connected drone at the origin; the controller as \<open>__init__\<close> leaves it,
  with the given drones registered.
\<close>

definition acknowledging :: mavros where
  "acknowledging =
     \<lparr>set_mode_result = (\<lambda>mode. Some True), arming_result = (\<lambda>value. Some True),
      takeoff_result = (\<lambda>altitude. Some True)\<rparr>"

definition arming_unanswered :: mavros where
  "arming_unanswered =
     \<lparr>set_mode_result = (\<lambda>mode. Some True), arming_result = (\<lambda>value. None),
      takeoff_result = (\<lambda>altitude. Some True)\<rparr>"

definition connected_drone :: "string \<Rightarrow> mavros \<Rightarrow> drone" where
  "connected_drone name far_end =
     \<lparr>drone_id = name, namespace = [],
      current_state = \<lparr>State_connected = True, State_armed = False, State_mode = []\<rparr>,
      connected = True, position = (Finite 0, Finite 0, Finite 0),
      target_position = (Finite 0, Finite 0, Finite 0),
      services = far_end\<rparr>"

definition controller_of :: "drone list \<Rightarrow> controller" where
  "controller_of registered =
     \<lparr>drones = registered, formation_active = False, formation_center = (0, 0, 10),
      current_formation = ''line'', formation_spacing = 5, trace = []\<rparr>"

definition four_drones :: controller where
  "four_drones = controller_of
     [connected_drone ''leader'' acknowledging, connected_drone ''drone_1'' acknowledging,
      connected_drone ''drone_2'' acknowledging, connected_drone ''drone_3'' acknowledging]"

definition five_drones :: controller where
  "five_drones = controller_of
     [connected_drone ''leader'' acknowledging, connected_drone ''drone_1'' acknowledging,
      connected_drone ''drone_2'' acknowledging, connected_drone ''drone_3'' acknowledging,
      connected_drone ''drone_4'' acknowledging]"

definition three_acknowledging :: controller where
  "three_acknowledging = controller_of
     [connected_drone ''leader'' acknowledging, connected_drone ''drone_1'' acknowledging,
      connected_drone ''drone_2'' acknowledging]"

definition second_unanswered :: controller where
  "second_unanswered = controller_of
     [connected_drone ''leader'' acknowledging, connected_drone ''drone_1'' arming_unanswered,
      connected_drone ''drone_2'' acknowledging]"

text \<open>
  A \<open>DroneController\<close> with nothing sent yet, and environments for its two waiting
  loops. The pairs are (clock reading, \<open>relative_alt\<close> in millimetres); the heartbeat
  bytes 209 and 81 differ in the armed bit only.
\<close>

definition vehicle :: DroneController where
  "vehicle = \<lparr>target_system = 1, target_component = 1, sent = []\<rparr>"

definition climbs_to_9_1 :: "(double \<times> 32 word option) list" where
  "climbs_to_9_1 =
     [(Finite 1, Some 3000), (Finite 3, None), (Finite 5, Some 6500), (Finite 7, Some 9100)]"

definition stuck_at_5 :: "(double \<times> 32 word option) list" where
  "stuck_at_5 =
     [(Finite 1, Some 5000), (Finite 3, Some 5000), (Finite 5, Some 5000), (Finite 7, Some 5000),
      (Finite 31, Some 5000)]"

definition settles_at_8_7 :: "(double \<times> 32 word option) list" where
  "settles_at_8_7 =
     [(Finite 1, Some 8700), (Finite 3, Some 8700), (Finite 5, Some 8700), (Finite 7, Some 8700)]"

definition three_samples_at_8_7 :: "(double \<times> 32 word option) list" where
  "three_samples_at_8_7 =
     [(Finite 1, Some 8700), (Finite 3, Some 8700), (Finite 5, Some 8700), (Finite 31, None)]"

definition rises_to_8_6 :: "(double \<times> 32 word option) list" where
  "rises_to_8_6 =
     [(Finite 1, Some 8500), (Finite 3, Some 8500), (Finite 5, Some 8500), (Finite 7, Some 8600)]"

definition rises_to_4_35 :: "(double \<times> 32 word option) list" where
  "rises_to_4_35 =
     [(Finite 1, Some 4250), (Finite 3, Some 4250), (Finite 5, Some 4250), (Finite 7, Some 4350)]"

definition reaches_11_7 :: "(double \<times> 32 word option) list" where
  "reaches_11_7 = [(Finite 1, Some 11700), (Finite 31, None)]"

definition steps_of_a_tenth :: "(double \<times> 32 word option) list" where
  "steps_of_a_tenth =
     [(Finite 1, Some 8400), (Finite 3, Some 8500), (Finite 5, Some 8600), (Finite 7, Some 8500)]"

definition disarms_in_round_3 :: "nat \<Rightarrow> 8 word option" where
  "disarms_in_round_3 n = (if n = 1 then None else if n < 3 then Some 209 else Some 81)"

definition stays_armed :: "nat \<Rightarrow> 8 word option" where
  "stays_armed n = (if even n then Some 209 else None)"

section \<open>Notions of the specification\<close>

text \<open>
  Line's offset rule as the specification words it: the slot index minus half the
  number of members, in real division. \<open>second_row_y_as_line\<close> applies that rule to
  the second row of Triangle: offset index \<open>i - 3\<close> among the \<open>count - 3\<close> extra
  members, in steps of half the spacing.
\<close>

definition line_offset :: "nat \<Rightarrow> nat \<Rightarrow> real" where
  "line_offset i count = real i - real count / 2"

definition second_row_y_as_line :: "controller \<Rightarrow> nat \<Rightarrow> real" where
  "second_row_y_as_line c i =
     center_y c + line_offset (i - 3) (length (drones c) - 3) * (formation_spacing c / 2)"




definition double_quotient :: "double \<Rightarrow> double \<Rightarrow> double" where
  "double_quotient x y = (case truediv x y of Inl raised \<Rightarrow> NaN | Inr q \<Rightarrow> q)"


definition velocity_twist :: "dvec3 \<Rightarrow> twist" where
  "velocity_twist v =
     \<lparr>linear_x = fst v, linear_y = fst (snd v), linear_z = snd (snd v),
      angular_x = Finite 0, angular_y = Finite 0, angular_z = Finite 0\<rparr>"




text \<open>
  The takeoff wait loop, as the specification describes it, read in double
  arithmetic. The samples are the altitudes, in metres, of the messages received in
  the rounds whose loop condition held (less than 30 seconds since the start): each
  is the rounded quotient of \<open>relative_alt\<close> by \<open>1000.0\<close>. The change of a sample is
  the rounded distance from the sample before it; the first sample is measured
  against 0, the value \<open>last_alt\<close> starts with. A sample has \<open>reached\<close> the target
  when it is at least the rounded product of the target and \<open>0.9\<close>; the altitude has
  \<open>stabilised\<close> at a sample when that sample and the two before it each changed by
  less than the double nearest 0.1 and the sample is at least the rounded product
  of the target and \<open>0.85\<close>. The window closes when a round finds 30 seconds or more
  elapsed.
\<close>

definition metres :: "32 word \<Rightarrow> double" where
  "metres relative_alt = double_quotient (float_of_int32 relative_alt) (literal 1000)"

definition in_window :: "double \<Rightarrow> double \<Rightarrow> bool" where
  "in_window start_time now = flt (fsub now start_time) (Finite 30)"

definition samples_in_window :: "double \<Rightarrow> (double \<times> 32 word option) list \<Rightarrow> double list" where
  "samples_in_window start_time rounds =
     List.map_filter (\<lambda>(now, msg). map_option metres msg)
       (takeWhile (\<lambda>(now, msg). in_window start_time now) rounds)"

definition window_closes :: "double \<Rightarrow> (double \<times> 32 word option) list \<Rightarrow> bool" where
  "window_closes start_time rounds = list_ex (\<lambda>(now, msg). \<not> in_window start_time now) rounds"

definition change :: "double list \<Rightarrow> nat \<Rightarrow> double" where
  "change samples k = fabs (fsub (samples ! k) ((Finite 0 # samples) ! k))"

definition reached :: "double \<Rightarrow> double list \<Rightarrow> nat \<Rightarrow> bool" where
  "reached altitude samples k = fle (fmul altitude (literal 0.9)) (samples ! k)"

definition stabilised :: "double \<Rightarrow> double list \<Rightarrow> nat \<Rightarrow> bool" where
  "stabilised altitude samples k =
     (2 \<le> k \<and> flt (change samples (k - 2)) (literal 0.1)
        \<and> flt (change samples (k - 1)) (literal 0.1)
        \<and> flt (change samples k) (literal 0.1)
        \<and> fle (fmul altitude (literal 0.85)) (samples ! k))"

definition takeoff_succeeds :: "double \<Rightarrow> double list \<Rightarrow> bool" where
  "takeoff_succeeds altitude samples =
     list_ex (\<lambda>k. reached altitude samples k \<or> stabilised altitude samples k)
       [0..<length samples]"

text \<open>The altitude of a message in exact arithmetic.\<close>

definition exact_metres :: "32 word \<Rightarrow> real" where
  "exact_metres relative_alt = real_of_int (sint relative_alt) / 1000"

text \<open>
  Auxiliary notions for the proof about the wait loop: the loop body run on the
  samples alone, and the success condition at sample \<open>k\<close> for a loop that starts
  with an arbitrary \<open>stable_count\<close> and \<open>last_alt\<close>. \<open>nonneg\<close> holds of the doubles
  that \<open>math.sqrt\<close> accepts.
\<close>

fun scan :: "double \<Rightarrow> nat \<Rightarrow> double \<Rightarrow> double list \<Rightarrow> bool" where
  "scan altitude stable_count last_alt [] = False"
| "scan altitude stable_count last_alt (current_alt # rest) =
     (if fle (fmul altitude (literal 0.90)) current_alt then True
      else if flt (fabs (fsub current_alt last_alt)) (literal 0.1) then
        (if stable_count + 1 \<ge> 3 \<and> fle (fmul altitude (literal 0.85)) current_alt then True
         else scan altitude (stable_count + 1) current_alt rest)
      else scan altitude 0 current_alt rest)"

definition step_change :: "double \<Rightarrow> double list \<Rightarrow> nat \<Rightarrow> double" where
  "step_change last_alt samples k = fabs (fsub (samples ! k) ((last_alt # samples) ! k))"

definition success_at :: "double \<Rightarrow> nat \<Rightarrow> double \<Rightarrow> double list \<Rightarrow> nat \<Rightarrow> bool" where
  "success_at altitude stable_count last_alt samples k =
     (fle (fmul altitude (literal 0.90)) (samples ! k)
      \<or> (flt (step_change last_alt samples k) (literal 0.1)
          \<and> (1 \<le> k \<longrightarrow> flt (step_change last_alt samples (k - 1)) (literal 0.1))
          \<and> (2 \<le> k \<longrightarrow> flt (step_change last_alt samples (k - 2)) (literal 0.1))
          \<and> (2 \<le> k \<or> 3 \<le> stable_count + k + 1)
          \<and> fle (fmul altitude (literal 0.85)) (samples ! k)))"


text \<open>
  What one vehicle contributes to the trace of \<open>arm_all\<close> and of \<open>takeoff_formation\<close>,
  and whether its own operation succeeded; the zero-velocity message of \<open>stop\<close>; a
  poll of \<open>land\<close> that shows the vehicle disarmed.
\<close>

definition arm_ok :: "drone \<Rightarrow> bool" where
  "arm_ok drone = fst (FormationDrone_arm drone)"

definition arm_attempt :: "drone \<Rightarrow> event list" where
  "arm_attempt drone =
     snd (FormationDrone_arm drone)
       @ [if arm_ok drone then Log Info (Armed (drone_id drone))
          else Log Error (Failed_to_arm (drone_id drone))]"

definition takeoff_ok :: "real \<Rightarrow> drone \<Rightarrow> bool" where
  "takeoff_ok altitude drone = fst (FormationDrone_takeoff drone altitude)"

definition vehicle_takeoff :: "real \<Rightarrow> nat \<times> drone \<Rightarrow> event list" where
  "vehicle_takeoff altitude numbered =
     [Log Info (Starting_takeoff (drone_id (snd numbered)))]
       @ (if fst numbered > 0 then [Sleep 1] else [])
       @ snd (FormationDrone_takeoff (snd numbered) altitude)"

definition zero_velocity :: "drone \<Rightarrow> event" where
  "zero_velocity drone = Publish (drone_id drone) (velocity_twist (Finite 0, Finite 0, Finite 0))"

definition disarmed :: "8 word option \<Rightarrow> bool" where
  "disarmed polled =
     (case polled of None \<Rightarrow> False
      | Some base_mode \<Rightarrow> base_mode AND MAV_MODE_FLAG_SAFETY_ARMED = 0)"

section \<open>Properties of the float operations\<close>

text \<open>
  A real that lies within half a unit in the last place of \<open>n * 2 powi (e - 52)\<close>,
  in the binade of exponent \<open>e\<close>, rounds to it; integers below \<open>2 ^ 53\<close> are doubles;
  rounding keeps the sign, so a sum of squares is never negative.
\<close>

lemma round_half_even_near:
  assumes "\<bar>q - of_int n\<bar> < 1 / 2"
  shows "round_half_even q = n"
proof -
  have "\<lfloor>q\<rfloor> = n \<or> \<lfloor>q\<rfloor> = n - 1" using assms by (auto simp: abs_if split: if_splits) linarith+
  then show ?thesis
    using assms unfolding round_half_even_def Let_def
    by (auto simp: abs_if split: if_splits) 
qed


lemma binade_eq:
  assumes "2 powi e \<le> \<bar>x\<bar>" and "\<bar>x\<bar> < 2 powi (e + 1)" and "- 1022 \<le> e"
  shows "binade x = e"
proof -
  have "(0::real) < 2 powi e" by simp
  with assms(1) have pos: "0 < \<bar>x\<bar>" by linarith
  have "(2::real) powi (- 1022) \<le> 2 powi e"
    by (rule power_int_increasing) (use assms(3) in simp_all)
  then have "\<not> \<bar>x\<bar> < 2 powi (- 1022)" using assms(1) by linarith
  moreover have "\<lfloor>log 2 \<bar>x\<bar>\<rfloor> = e"
    using assms pos by (simp add: floor_log_eq_powr_iff powr_real_of_int' flip: of_int_add)
  ultimately show ?thesis unfolding binade_def by simp
qed

lemma below_overflow: "(2::real) powi 1023 < overflow_threshold"
  by (simp add: overflow_threshold_def)

lemma overflow_threshold_positive: "0 < overflow_threshold"
  by (simp add: overflow_threshold_def)

lemma binary64_certificate:
  assumes "2 powi e \<le> \<bar>x\<bar>" and "\<bar>x\<bar> < 2 powi (e + 1)" and "- 1022 \<le> e" and "e \<le> 1022"
    and "\<bar>x / 2 powi (e - 52) - of_int n\<bar> < 1 / 2"
  shows "binary64 x = Finite (of_int n * 2 powi (e - 52))"
proof -
  have "(2::real) powi (e + 1) \<le> 2 powi 1023"
    by (rule power_int_increasing) (use assms(4) in simp_all)
  with assms(2) below_overflow have "\<not> \<bar>x\<bar> \<ge> overflow_threshold" by linarith
  moreover have "binade x = e" using assms(1-3) by (rule binade_eq)
  moreover have "round_half_even (x / 2 powi (e - 52)) = n"
    using assms(5) by (rule round_half_even_near)
  ultimately show ?thesis
    unfolding binary64_def by simp
qed

lemma binary64_zero: "binary64 0 = Finite 0"
  using overflow_threshold_positive
  by (simp add: binary64_def round_half_even_def)






lemma binary64_of_int:
  assumes "\<bar>n\<bar> < 2 ^ 53"
  shows "binary64 (of_int n) = Finite (of_int n)"
proof (cases "n = 0")
  case True
  then show ?thesis by (simp add: binary64_zero)
next
  case False
  define x :: real where "x = of_int n"
  define e where "e = \<lfloor>log 2 \<bar>x\<bar>\<rfloor>"
  have x1: "1 \<le> \<bar>x\<bar>" using False by (simp add: x_def flip: of_int_abs)
  have x2: "\<bar>x\<bar> < 2 ^ 53" using assms unfolding x_def
    by (metis of_int_abs of_int_less_numeral_power_cancel_iff)
  have bounds: "2 powr e \<le> \<bar>x\<bar> \<and> \<bar>x\<bar> < 2 powr (e + 1)"
    using x1 floor_log_eq_powr_iff [of "\<bar>x\<bar>" 2 e] by (simp add: e_def)
  have lo: "2 powi e \<le> \<bar>x\<bar>" and hi: "\<bar>x\<bar> < 2 powi (e + 1)"
    using bounds by (simp_all add: powr_real_of_int' flip: of_int_add)
  have e0: "0 \<le> e" using x1 by (simp add: e_def zero_le_log_cancel_iff)
  have e53: "e < 53"
  proof (rule ccontr)
    assume "\<not> e < 53"
    then have "(2::real) powi 53 \<le> 2 powi e"
      by (intro power_int_increasing) simp_all
    with lo x2 show False by simp
  qed
  have scale: "1 / (2::real) powi (e - 52) = 2 ^ nat (52 - e)"
    using e0 e53 by (simp add: power_int_def nat_diff_distrib' field_simps flip: power_add)
  have "x / 2 powi (e - 52) = of_int (n * 2 ^ nat (52 - e))"
    using scale by (simp add: x_def field_simps)
  then have "\<bar>x / 2 powi (e - 52) - of_int (n * 2 ^ nat (52 - e))\<bar> < 1 / 2" by simp
  from binary64_certificate [OF lo hi _ _ this]
  have "binary64 x = Finite (of_int (n * 2 ^ nat (52 - e)) * 2 powi (e - 52))"
    using e0 e53 by simp
  also have "of_int (n * 2 ^ nat (52 - e)) * 2 powi (e - 52) = x"
    using scale by (simp add: x_def field_simps)
  finally show ?thesis by (simp add: x_def)
qed

lemma binary64_integer: "x \<in> \<int> \<Longrightarrow> \<bar>x\<bar> < 2 ^ 53 \<Longrightarrow> binary64 x = Finite x"
  by (auto elim!: Ints_cases simp add: binary64_of_int simp flip: of_int_abs)


text \<open>The roundings that the sample computations below go through.\<close>

lemma binary64_value_1: "binary64 (- (56294995342131 / 562949953421312)) = Finite (- (56294995342131 / 562949953421312))"
  using binary64_certificate [of "- 4" "- (56294995342131 / 562949953421312)" "- 7205759403792768"] by simp

lemma binary64_value_2: "binary64 (1 / 256) = Finite (1 / 256)"
  using binary64_certificate [of "- 8" "1 / 256" 4503599627370496] by simp

lemma binary64_value_3: "binary64 (12980742146337070512478121581609 / 1298074214633706907132624082305024) = Finite (1441151880758559 / 144115188075855872)"
  using binary64_certificate [of "- 7" "12980742146337070512478121581609 / 1298074214633706907132624082305024" 5764607523034236] by simp

lemma binary64_value_4: "binary64 (1441151880758559 / 144115188075855872) = Finite (1441151880758559 / 144115188075855872)"
  using binary64_certificate [of "- 7" "1441151880758559 / 144115188075855872" 5764607523034236] by simp

lemma binary64_value_5: "binary64 (1 / 16) = Finite (1 / 16)"
  using binary64_certificate [of "- 4" "1 / 16" 4503599627370496] by simp

lemma binary64_value_6: "binary64 (56294995342131 / 562949953421312) = Finite (56294995342131 / 562949953421312)"
  using binary64_certificate [of "- 4" "56294995342131 / 562949953421312" 7205759403792768] by simp

lemma binary64_value_7: "binary64 (1 / 10) = Finite (3602879701896397 / 36028797018963968)"
  using binary64_certificate [of "- 4" "1 / 10" 7205759403792794] by simp

lemma binary64_value_8: "binary64 (3602879701896397 / 36028797018963968) = Finite (3602879701896397 / 36028797018963968)"
  using binary64_certificate [of "- 4" "3602879701896397 / 36028797018963968" 7205759403792794] by simp

lemma binary64_value_9: "binary64 (17 / 20) = Finite (7656119366529843 / 9007199254740992)"
  using binary64_certificate [of "- 1" "17 / 20" 7656119366529843] by simp

lemma binary64_value_10: "binary64 (9 / 10) = Finite (8106479329266893 / 9007199254740992)"
  using binary64_certificate [of "- 1" "9 / 10" 8106479329266893] by simp

lemma binary64_value_11: "binary64 (1463669878895411 / 562949953421312) = Finite (1463669878895411 / 562949953421312)"
  using binary64_certificate [of 1 "1463669878895411 / 562949953421312" 5854679515581644] by simp

lemma binary64_value_12: "binary64 (7 / 2) = Finite (7 / 2)"
  using binary64_certificate [of 1 "7 / 2" 7881299347898368] by simp

lemma binary64_value_13: "binary64 (38280596832649215 / 9007199254740992) = Finite (17 / 4)"
  using binary64_certificate [of 2 "38280596832649215 / 9007199254740992" 4785074604081152] by simp

lemma binary64_value_14: "binary64 (17 / 4) = Finite (17 / 4)"
  using binary64_certificate [of 2 "17 / 4" 4785074604081152] by simp

lemma binary64_value_15: "binary64 (87 / 20) = Finite (2448832297382707 / 562949953421312)"
  using binary64_certificate [of 2 "87 / 20" 4897664594765414] by simp

lemma binary64_value_16: "binary64 (40532396646334465 / 9007199254740992) = Finite (9 / 2)"
  using binary64_certificate [of 2 "40532396646334465 / 9007199254740992" 5066549580791808] by simp

lemma binary64_value_17: "binary64 (13 / 2) = Finite (13 / 2)"
  using binary64_certificate [of 2 "13 / 2" 7318349394477056] by simp

lemma binary64_value_18: "binary64 (42 / 5) = Finite (4728779608739021 / 562949953421312)"
  using binary64_certificate [of 3 "42 / 5" 4728779608739021] by simp

lemma binary64_value_19: "binary64 (4728779608739021 / 562949953421312) = Finite (4728779608739021 / 562949953421312)"
  using binary64_certificate [of 3 "4728779608739021 / 562949953421312" 4728779608739021] by simp

lemma binary64_value_20: "binary64 (38280596832649215 / 4503599627370496) = Finite (17 / 2)"
  using binary64_certificate [of 3 "38280596832649215 / 4503599627370496" 4785074604081152] by simp

lemma binary64_value_21: "binary64 (17 / 2) = Finite (17 / 2)"
  using binary64_certificate [of 3 "17 / 2" 4785074604081152] by simp

lemma binary64_value_22: "binary64 (43 / 5) = Finite (4841369599423283 / 562949953421312)"
  using binary64_certificate [of 3 "43 / 5" 4841369599423283] by simp

lemma binary64_value_23: "binary64 (2448832297382707 / 281474976710656) = Finite (2448832297382707 / 281474976710656)"
  using binary64_certificate [of 3 "2448832297382707 / 281474976710656" 4897664594765414] by simp

lemma binary64_value_24: "binary64 (87 / 10) = Finite (2448832297382707 / 281474976710656)"
  using binary64_certificate [of 3 "87 / 10" 4897664594765414] by simp

lemma binary64_value_25: "binary64 (40532396646334465 / 4503599627370496) = Finite (9)"
  using binary64_certificate [of 3 "40532396646334465 / 4503599627370496" 5066549580791808] by simp

lemma binary64_value_26: "binary64 (91 / 10) = Finite (5122844576133939 / 562949953421312)"
  using binary64_certificate [of 3 "91 / 10" 5122844576133939] by simp

lemma binary64_value_27: "binary64 (99529551764887959 / 9007199254740992) = Finite (6220596985305497 / 562949953421312)"
  using binary64_certificate [of 3 "99529551764887959 / 9007199254740992" 6220596985305497] by simp

lemma binary64_value_28: "binary64 (3293257227514675 / 281474976710656) = Finite (3293257227514675 / 281474976710656)"
  using binary64_certificate [of 3 "3293257227514675 / 281474976710656" 6586514455029350] by simp

lemma binary64_value_29: "binary64 (117 / 10) = Finite (3293257227514675 / 281474976710656)"
  using binary64_certificate [of 3 "117 / 10" 6586514455029350] by simp

lemma binary64_value_30: "binary64 (105384231280469609 / 9007199254740992) = Finite (6586514455029351 / 562949953421312)"
  using binary64_certificate [of 3 "105384231280469609 / 9007199254740992" 6586514455029351] by simp

lemma binary64_value_31: "binary64 (4149515568880992958512407863691161151012446232242436899995657329690652811412908146399707048947103794288197886611300789182395151075411775307886874834113963687061181803401509523685376) = Finite (4149515568880992958512407863691161151012446232242436899995657329690652811412908146399707048947103794288197886611300789182395151075411775307886874834113963687061181803401509523685376)"
  using binary64_certificate [of 600 "4149515568880992958512407863691161151012446232242436899995657329690652811412908146399707048947103794288197886611300789182395151075411775307886874834113963687061181803401509523685376" 4503599627370496] by simp

lemmas binary64_values =
  binary64_value_1 binary64_value_2 binary64_value_3 binary64_value_4
  binary64_value_5 binary64_value_6 binary64_value_7 binary64_value_8
  binary64_value_9 binary64_value_10 binary64_value_11 binary64_value_12
  binary64_value_13 binary64_value_14 binary64_value_15 binary64_value_16
  binary64_value_17 binary64_value_18 binary64_value_19 binary64_value_20
  binary64_value_21 binary64_value_22 binary64_value_23 binary64_value_24
  binary64_value_25 binary64_value_26 binary64_value_27 binary64_value_28
  binary64_value_29 binary64_value_30 binary64_value_31





lemma literal_zero: "literal 0 = Finite 0"
  by (simp add: literal_def binary64_zero)

lemma literal_thousand: "literal 1000 = Finite 1000"
  unfolding literal_def
  using binary64_certificate [of 9 1000 "1000 * 2 ^ 43"] by simp

lemmas double_evaluation =
  binary64_values binary64_integer binary64_zero literal_def fsub_def float_of_int32_def
  double_quotient_def py_min_def py_max_def and_then_def signed_inf_def Let_def

section \<open>Properties of the formation patterns\<close>

lemma line_loop_length: "length (line_loop c ps acc) = length acc + length ps"
  by (induction c ps acc rule: line_loop.induct) (simp_all add: Let_def)

lemma triangle_loop_eq:
  "triangle_loop c is acc = acc @ map (\<lambda>i. (center_x c - 2 * formation_spacing c,
      center_y c + (real i - 3 - (real (length (drones c)) - 4) / 2) * formation_spacing c / 2,
      center_z c)) is"
  by (induction "is" arbitrary: acc) (simp_all add: Let_def)

lemma square_loop_length: "length (square_loop c ps acc) = length acc + length ps"
  by (induction c ps acc rule: square_loop.induct) (simp_all add: Let_def)

lemma diamond_loop_length: "length (diamond_loop c is acc) = length acc + length is"
  by (induction "is" arbitrary: acc) (simp_all add: Let_def)

lemma circle_loop_length:
  "ps = [] \<or> drones c \<noteq> [] \<Longrightarrow>
     \<exists>positions. circle_loop c ps acc = Inr positions \<and> length positions = length acc + length ps"
  by (induction c ps acc rule: circle_loop.induct) (auto simp add: Let_def)

lemma line_formation_length: "length (line_formation c) = length (drones c)"
  by (simp add: line_formation_def line_loop_length)

lemma square_formation_length: "length (square_formation c) = length (drones c)"
  by (simp add: square_formation_def square_loop_length)

lemma triangle_formation_length: "length (triangle_formation c) = length (drones c)"
proof -
  consider "length (drones c) = 0" | "length (drones c) = 1" | "length (drones c) = 2"
    | "3 \<le> length (drones c)"
    by linarith
  then show ?thesis
    by cases (simp_all add: triangle_formation_def triangle_loop_eq Let_def)
qed

lemma diamond_formation_length: "length (diamond_formation c) = length (drones c)"
proof -
  consider "length (drones c) = 0" | "length (drones c) = 1" | "length (drones c) = 2"
    | "length (drones c) = 3" | "4 \<le> length (drones c)"
    by linarith
  then show ?thesis
    by cases (simp_all add: diamond_formation_def diamond_loop_length Let_def)
qed

lemma circle_formation_length:
  "\<exists>positions. circle_formation c = Inr positions \<and> length positions = length (drones c)"
  using circle_loop_length [of "enumerate 0 (drones c)" c "[]"]
  by (cases "drones c") (simp_all add: circle_formation_def)

text \<open>
  C1. Whatever the number of registered drones, each of the five patterns in
  \<open>self.formations\<close> returns normally (no exception, also for Circle with no drone)
  and its list has exactly as many positions as there are drones.
\<close>

theorem formations_length:
  "formations name = Some pattern \<Longrightarrow>
     \<exists>positions. pattern c = Inr positions \<and> length positions = length (drones c)"
  using circle_formation_length [of c]
  by (auto simp add: formations_def line_formation_length square_formation_length
        triangle_formation_length diamond_formation_length split: if_splits)

theorem formations_length_witness:
  "formations ''circle'' = Some circle_formation
   \<and> circle_formation (controller_of []) = Inr []
   \<and> (\<exists>positions. circle_formation five_drones = Inr positions \<and> length positions = 5)"
proof -
  have h: "formations ''circle'' = Some circle_formation"
    by (simp add: formations_def)
  have n: "length (drones five_drones) = 5"
    by (simp add: five_drones_def controller_of_def)
  show ?thesis
    using h formations_length [OF h, of "controller_of []"] formations_length [OF h, of five_drones] n
    by (simp add: controller_of_def)
qed

lemma triangle_formation_nth:
  assumes "3 \<le> i" and "i < length (drones c)"
  shows "triangle_formation c ! i =
     (center_x c - 2 * formation_spacing c,
      center_y c + (real i - 3 - (real (length (drones c)) - 4) / 2) * formation_spacing c / 2,
      center_z c)"
proof -
  let ?f = "\<lambda>i. (center_x c - 2 * formation_spacing c,
      center_y c + (real i - 3 - (real (length (drones c)) - 4) / 2) * formation_spacing c / 2,
      center_z c)"
  from assms have n: "3 \<le> length (drones c)" by simp
  then obtain a b d where
    eq: "triangle_formation c = [a, b, d] @ map ?f [3..<length (drones c)]"
    by (simp add: triangle_formation_def triangle_loop_eq Let_def)
  have "([a, b, d] @ map ?f [3..<length (drones c)]) ! i = map ?f [3..<length (drones c)] ! (i - 3)"
    using assms by (simp add: nth_append)
  also have "\<dots> = ?f i"
    using assms by simp
  finally show ?thesis by (simp add: eq)
qed

text \<open>
  C6, as the code has it. With more than three drones, every slot \<open>i \<ge> 3\<close> of Triangle
  lies at \<open>x = center.x - 2 * spacing\<close> and at the height of the centre; the
  \<open>y\<close>-coordinates of the extra slots are \<open>spacing / 2\<close> apart and centred on
  \<open>center.y\<close>: the offset index \<open>i - 3\<close> minus half of one less than the number of
  extra members (in real division), times \<open>spacing / 2\<close>.
\<close>

theorem triangle_second_row:
  assumes "3 < length (drones c)" and "3 \<le> i" and "i < length (drones c)"
  shows "fst (triangle_formation c ! i) = center_x c - 2 * formation_spacing c
    \<and> fst (snd (triangle_formation c ! i)) =
        center_y c + (real (i - 3) - (real (length (drones c) - 3) - 1) / 2) * (formation_spacing c / 2)
    \<and> snd (snd (triangle_formation c ! i)) = center_z c
    \<and> (Suc i < length (drones c) \<longrightarrow>
         fst (snd (triangle_formation c ! Suc i)) - fst (snd (triangle_formation c ! i))
           = formation_spacing c / 2)"
proof -
  have a: "real (i - 3) = real i - 3" using assms by simp
  have b: "real (length (drones c) - 3) = real (length (drones c)) - 3" using assms by simp
  show ?thesis
    using assms by (simp add: triangle_formation_nth a b field_simps)
qed

theorem triangle_second_row_witness:
  "3 < length (drones five_drones) \<and> Suc 3 < length (drones five_drones)
   \<and> triangle_formation five_drones ! 3 = (-10, - 5 / 4, 10)
   \<and> fst (snd (triangle_formation five_drones ! Suc 3))
       - fst (snd (triangle_formation five_drones ! 3)) = 5 / 2"
proof -
  have n: "length (drones five_drones) = 5"
    by (simp add: five_drones_def controller_of_def)
  have "3 < length (drones five_drones)" "(3::nat) \<le> 3" "3 < length (drones five_drones)"
    using n by simp_all
  from triangle_second_row [OF this] n
  have "fst (triangle_formation five_drones ! 3) = -10
    \<and> fst (snd (triangle_formation five_drones ! 3)) = - 5 / 4
    \<and> snd (snd (triangle_formation five_drones ! 3)) = 10
    \<and> fst (snd (triangle_formation five_drones ! Suc 3))
       - fst (snd (triangle_formation five_drones ! 3)) = 5 / 2"
    by (simp add: five_drones_def controller_of_def)
  then show ?thesis using n by (simp add: prod_eq_iff)
qed

text \<open>
  C6, as the claim words it, fails. With four drones the single extra slot sits at
  \<open>y = center.y\<close>, where Line's rule (index minus half the number of extra members)
  would put it a quarter of the spacing to the side.
\<close>

theorem triangle_second_row_counterexample:
  "fst (snd (triangle_formation four_drones ! 3)) = 0
   \<and> second_row_y_as_line four_drones 3 = - 5 / 4
   \<and> fst (snd (triangle_formation four_drones ! 3)) \<noteq> second_row_y_as_line four_drones 3"
proof -
  have n: "length (drones four_drones) = 4"
    by (simp add: four_drones_def controller_of_def)
  have "triangle_formation four_drones ! 3 = (-10, 0, 10)"
    using triangle_formation_nth [of 3 four_drones] n
    by (simp add: four_drones_def controller_of_def)
  moreover have "second_row_y_as_line four_drones 3 = - 5 / 4"
    by (simp add: second_row_y_as_line_def line_offset_def four_drones_def controller_of_def)
  ultimately show ?thesis by simp
qed

section \<open>Properties of one drone\<close>



lemma truediv_returns: "y \<noteq> Finite 0 \<Longrightarrow> truediv x y = Inr (double_quotient x y)"
  by (cases x; cases y) (simp_all add: double_quotient_def)







lemma mode_mapping_dom:
  "dom mode_mapping = {''STABILIZE'', ''GUIDED'', ''LAND'', ''RTL'', ''LOITER''}"
  by (auto simp add: mode_mapping_def split: if_splits)

text \<open>
  C7, as the code has it. \<open>DroneController.set_mode\<close> returns \<open>False\<close> and sends
  nothing for every mode name outside its table of five names, and sends exactly
  one \<open>SET_MODE\<close> and returns \<open>True\<close> for a name in the table.
  \<open>FormationDrone.set_mode\<close> has no table: it returns \<open>False\<close> without sending only
  when the drone is not connected; when it is connected it sends one request that
  carries the given name, whatever the name is, and returns what the service
  answers.
\<close>

theorem set_mode_unknown_name:
  "(mode \<notin> {''STABILIZE'', ''GUIDED'', ''LAND'', ''RTL'', ''LOITER''} \<longrightarrow>
      DroneController_set_mode dc mode = (False, dc))
   \<and> (mode \<in> {''STABILIZE'', ''GUIDED'', ''LAND'', ''RTL'', ''LOITER''} \<longrightarrow>
      (\<exists>custom_mode. DroneController_set_mode dc mode =
         (True, dc\<lparr>sent := sent dc @
            [SET_MODE (target_system dc) MAV_MODE_FLAG_CUSTOM_MODE_ENABLED custom_mode]\<rparr>)))
   \<and> (\<not> connected self \<longrightarrow> FormationDrone_set_mode self mode = (False, []))
   \<and> (connected self \<longrightarrow>
        FormationDrone_set_mode self mode =
          (truthy (set_mode_result (services self) mode), [SetMode_request (drone_id self) mode]))"
proof -
  have "mode \<notin> dom mode_mapping \<longrightarrow> DroneController_set_mode dc mode = (False, dc)"
    by (auto simp add: DroneController_set_mode_def split: option.splits)
  moreover have "mode \<in> dom mode_mapping \<longrightarrow>
      (\<exists>custom_mode. DroneController_set_mode dc mode =
         (True, dc\<lparr>sent := sent dc @
            [SET_MODE (target_system dc) MAV_MODE_FLAG_CUSTOM_MODE_ENABLED custom_mode]\<rparr>))"
    by (auto simp add: DroneController_set_mode_def split: option.splits)
  ultimately show ?thesis
    unfolding mode_mapping_dom by (simp add: FormationDrone_set_mode_def)
qed

theorem set_mode_unknown_name_witness:
  "DroneController_set_mode vehicle ''ACRO'' = (False, vehicle)
   \<and> DroneController_set_mode vehicle ''GUIDED'' = (True, vehicle\<lparr>sent := [SET_MODE 1 1 4]\<rparr>)
   \<and> FormationDrone_set_mode ((connected_drone ''leader'' acknowledging)\<lparr>connected := False\<rparr>) ''ACRO''
       = (False, [])
   \<and> FormationDrone_set_mode (connected_drone ''leader'' acknowledging) ''ACRO''
       = (True, [SetMode_request ''leader'' ''ACRO''])"
proof -
  have a: "DroneController_set_mode vehicle ''ACRO'' = (False, vehicle)"
    using set_mode_unknown_name [of "''ACRO''" vehicle "connected_drone ''leader'' acknowledging"]
    by simp
  obtain custom_mode where "DroneController_set_mode vehicle ''GUIDED'' =
      (True, vehicle\<lparr>sent := sent vehicle @
            [SET_MODE (target_system vehicle) MAV_MODE_FLAG_CUSTOM_MODE_ENABLED custom_mode]\<rparr>)"
    using set_mode_unknown_name [of "''GUIDED''" vehicle "connected_drone ''leader'' acknowledging"]
    by auto
  then have b: "DroneController_set_mode vehicle ''GUIDED'' = (True, vehicle\<lparr>sent := [SET_MODE 1 1 4]\<rparr>)"
    by (simp add: DroneController_set_mode_def mode_mapping_def vehicle_def
          MAV_MODE_FLAG_CUSTOM_MODE_ENABLED_def)
  have c: "FormationDrone_set_mode ((connected_drone ''leader'' acknowledging)\<lparr>connected := False\<rparr>)
      ''ACRO'' = (False, [])"
    using set_mode_unknown_name
      [of "''ACRO''" vehicle "(connected_drone ''leader'' acknowledging)\<lparr>connected := False\<rparr>"]
    by simp
  have d: "FormationDrone_set_mode (connected_drone ''leader'' acknowledging) ''ACRO''
       = (True, [SetMode_request ''leader'' ''ACRO''])"
    using set_mode_unknown_name [of "''ACRO''" vehicle "connected_drone ''leader'' acknowledging"]
    by (simp add: connected_drone_def acknowledging_def truthy_def)
  from a b c d show ?thesis by simp
qed

text \<open>
  C7, as the claim words it, fails for \<open>FormationDrone.set_mode\<close>: the name \<open>ACRO\<close> is
  not among the recognised names, yet a connected drone sends the request (and
  returns \<open>True\<close> when the service accepts it).
\<close>

theorem set_mode_unknown_name_counterexample:
  "''ACRO'' \<notin> {''STABILIZE'', ''GUIDED'', ''LAND'', ''RTL'', ''LOITER''}
   \<and> mode_mapping ''ACRO'' = None
   \<and> FormationDrone_set_mode (connected_drone ''leader'' acknowledging) ''ACRO''
       = (True, [SetMode_request ''leader'' ''ACRO''])"
  by (simp add: mode_mapping_def FormationDrone_set_mode_def connected_drone_def
        acknowledging_def truthy_def)

section \<open>Properties of the formation controller\<close>

lemmas sample_defs = controller_of_def connected_drone_def acknowledging_def arming_unanswered_def

lemma arm_loop_eq:
  "arm_loop ds n self =
     (n + length (filter arm_ok ds), self\<lparr>trace := trace self @ concat (map arm_attempt ds)\<rparr>)"
proof (induction ds arbitrary: n self)
  case Nil
  show ?case by simp
next
  case (Cons d ds)
  show ?case
    by (cases "FormationDrone_arm d")
      (simp add: Cons.IH arm_ok_def arm_attempt_def logger_def)
qed

lemma filter_all_length: "length (filter P xs) = length xs \<longleftrightarrow> list_all P xs"
proof (cases "list_all P xs")
  case True
  then have "filter P xs = xs" by (simp add: list_all_iff)
  with True show ?thesis by simp
next
  case False
  then obtain x where "x \<in> set xs" and "\<not> P x" by (auto simp add: list_all_iff)
  then have "length (filter P xs) < length xs" by (rule length_filter_less)
  with False show ?thesis by simp
qed

text \<open>
  C5. \<open>arm_all\<close> calls \<open>arm\<close> on every registered drone in registration order,
  whatever the earlier results: the trace gains, for each drone in turn, the arming
  request (sent when the drone is connected) and one log line with the outcome.
  The result is \<open>True\<close> exactly when every single \<open>arm\<close> succeeded.
\<close>

theorem arm_all_attempts_everyone:
  "arm_all self =
     (list_all arm_ok (drones self),
      self\<lparr>trace := trace self @ [Log Info Arming_all] @ concat (map arm_attempt (drones self))\<rparr>)
   \<and> (list_all (\<lambda>drone. connected drone \<longrightarrow>
          CommandBool_request (drone_id drone) True \<in> set (arm_attempt drone)) (drones self))"
proof -
  have "list_all (\<lambda>drone. connected drone \<longrightarrow>
          CommandBool_request (drone_id drone) True \<in> set (arm_attempt drone)) (drones self)"
    by (simp add: list_all_iff arm_attempt_def FormationDrone_arm_def)
  then show ?thesis
    by (simp add: arm_all_def logger_def arm_loop_eq filter_all_length Let_def)
qed

theorem arm_all_attempts_everyone_witness:
  "fst (arm_all second_unanswered) = False
   \<and> trace (snd (arm_all second_unanswered)) =
       [Log Info Arming_all,
        CommandBool_request ''leader'' True, Log Info (Armed ''leader''),
        CommandBool_request ''drone_1'' True, Log Error (Failed_to_arm ''drone_1''),
        CommandBool_request ''drone_2'' True, Log Info (Armed ''drone_2'')]"
  using arm_all_attempts_everyone [of second_unanswered]
  by (simp add: second_unanswered_def controller_of_def connected_drone_def acknowledging_def
        arming_unanswered_def arm_ok_def arm_attempt_def FormationDrone_arm_def truthy_def)

lemma takeoff_loop_ok_step:
  "takeoff_ok altitude d \<Longrightarrow>
   takeoff_loop altitude ((i, d) # rest) self =
     takeoff_loop altitude rest (self\<lparr>trace := trace self @ vehicle_takeoff altitude (i, d)\<rparr>)"
  by (cases "FormationDrone_takeoff d altitude")
    (simp add: takeoff_ok_def vehicle_takeoff_def logger_def)

lemma takeoff_loop_failure_step:
  "\<not> takeoff_ok altitude d \<Longrightarrow>
   takeoff_loop altitude ((i, d) # rest) self =
     (False, self\<lparr>trace := trace self @ vehicle_takeoff altitude (i, d)
        @ [Log Error (Takeoff_failed (drone_id d))]\<rparr>)"
  by (cases "FormationDrone_takeoff d altitude")
    (simp add: takeoff_ok_def vehicle_takeoff_def logger_def)

lemma takeoff_loop_all_ok:
  "list_all (takeoff_ok altitude) ds \<Longrightarrow>
   takeoff_loop altitude (enumerate n ds) self =
     (True, self\<lparr>trace := trace self @ concat (map (vehicle_takeoff altitude) (enumerate n ds))\<rparr>)"
proof (induction ds arbitrary: n self)
  case Nil
  show ?case by simp
next
  case (Cons d ds)
  then show ?case
    by (simp add: takeoff_loop_ok_step del: takeoff_loop.simps)
qed

lemma takeoff_loop_first_failure:
  "k < length ds \<Longrightarrow> \<not> takeoff_ok altitude (ds ! k) \<Longrightarrow> list_all (takeoff_ok altitude) (take k ds) \<Longrightarrow>
   takeoff_loop altitude (enumerate n ds) self =
     (False, self\<lparr>trace := trace self
        @ concat (map (vehicle_takeoff altitude) (take (Suc k) (enumerate n ds)))
        @ [Log Error (Takeoff_failed (drone_id (ds ! k)))]\<rparr>)"
proof (induction ds arbitrary: k n self)
  case Nil
  then show ?case by simp
next
  case (Cons d ds)
  show ?case
  proof (cases k)
    case 0
    with Cons.prems show ?thesis
      by (simp add: takeoff_loop_failure_step del: takeoff_loop.simps)
  next
    case (Suc j)
    with Cons.prems have j: "j < length ds" "\<not> takeoff_ok altitude (ds ! j)"
      "list_all (takeoff_ok altitude) (take j ds)" and d: "takeoff_ok altitude d"
      by simp_all
    show ?thesis
      using Suc d Cons.IH [OF j]
      by (simp add: takeoff_loop_ok_step del: takeoff_loop.simps)
  qed
qed

lemma takeoff_formation_all_ok:
  assumes "list_all (takeoff_ok altitude) (drones self)"
  shows "takeoff_formation self altitude =
        (True, self\<lparr>trace := trace self @ [Log Info (Formation_takeoff altitude)]
           @ concat (map (vehicle_takeoff altitude) (enumerate 0 (drones self)))
           @ [Log Info Waiting_for_altitude, Sleep 10, Log Info Takeoff_complete]\<rparr>)"
  using takeoff_loop_all_ok [OF assms, of 0 "logger self Info (Formation_takeoff altitude)"]
  by (simp add: takeoff_formation_def logger_def)

lemma takeoff_formation_first_failure:
  assumes "k < length (drones self)" and "\<not> takeoff_ok altitude (drones self ! k)"
    and "list_all (takeoff_ok altitude) (take k (drones self))"
  shows "takeoff_formation self altitude =
        (False, self\<lparr>trace := trace self @ [Log Info (Formation_takeoff altitude)]
           @ concat (map (vehicle_takeoff altitude) (take (Suc k) (enumerate 0 (drones self))))
           @ [Log Error (Takeoff_failed (drone_id (drones self ! k)))]\<rparr>)"
  using takeoff_loop_first_failure [OF assms, of 0 "logger self Info (Formation_takeoff altitude)"]
  by (simp add: takeoff_formation_def logger_def)

text \<open>
  C4. \<open>takeoff_formation\<close> takes the drones off in registration order, with a
  one-second sleep before every drone but the first. When every takeoff succeeds
  it then sleeps ten seconds and returns \<open>True\<close>. When drone \<open>k\<close> is the first whose
  takeoff fails it returns \<open>False\<close> at once: the trace ends with that failure, holds
  nothing for the drones after \<open>k\<close>, and has no ten-second sleep.
\<close>

theorem takeoff_formation_staggered:
  "(list_all (takeoff_ok altitude) (drones self) \<longrightarrow>
      takeoff_formation self altitude =
        (True, self\<lparr>trace := trace self @ [Log Info (Formation_takeoff altitude)]
           @ concat (map (vehicle_takeoff altitude) (enumerate 0 (drones self)))
           @ [Log Info Waiting_for_altitude, Sleep 10, Log Info Takeoff_complete]\<rparr>))
   \<and> (k < length (drones self) \<and> \<not> takeoff_ok altitude (drones self ! k)
        \<and> list_all (takeoff_ok altitude) (take k (drones self)) \<longrightarrow>
      takeoff_formation self altitude =
        (False, self\<lparr>trace := trace self @ [Log Info (Formation_takeoff altitude)]
           @ concat (map (vehicle_takeoff altitude) (take (Suc k) (enumerate 0 (drones self))))
           @ [Log Error (Takeoff_failed (drone_id (drones self ! k)))]\<rparr>))"
  using takeoff_formation_all_ok [of altitude self]
    takeoff_formation_first_failure [of k self altitude]
  by blast

theorem takeoff_formation_staggered_witness:
  "takeoff_ok 10 (connected_drone ''leader'' acknowledging)
   \<and> \<not> takeoff_ok 10 (connected_drone ''drone_1'' arming_unanswered)
   \<and> fst (takeoff_formation three_acknowledging 10) = True
   \<and> trace (snd (takeoff_formation three_acknowledging 10)) =
       [Log Info (Formation_takeoff 10),
        Log Info (Starting_takeoff ''leader''),
        SetMode_request ''leader'' ''GUIDED'', Sleep 0.5, CommandBool_request ''leader'' True,
        Sleep 0.5, CommandTOL_request ''leader'' 10,
        Log Info (Starting_takeoff ''drone_1''), Sleep 1,
        SetMode_request ''drone_1'' ''GUIDED'', Sleep 0.5, CommandBool_request ''drone_1'' True,
        Sleep 0.5, CommandTOL_request ''drone_1'' 10,
        Log Info (Starting_takeoff ''drone_2''), Sleep 1,
        SetMode_request ''drone_2'' ''GUIDED'', Sleep 0.5, CommandBool_request ''drone_2'' True,
        Sleep 0.5, CommandTOL_request ''drone_2'' 10,
        Log Info Waiting_for_altitude, Sleep 10, Log Info Takeoff_complete]
   \<and> fst (takeoff_formation second_unanswered 10) = False
   \<and> trace (snd (takeoff_formation second_unanswered 10)) =
       [Log Info (Formation_takeoff 10),
        Log Info (Starting_takeoff ''leader''),
        SetMode_request ''leader'' ''GUIDED'', Sleep 0.5, CommandBool_request ''leader'' True,
        Sleep 0.5, CommandTOL_request ''leader'' 10,
        Log Info (Starting_takeoff ''drone_1''), Sleep 1,
        SetMode_request ''drone_1'' ''GUIDED'', Sleep 0.5, CommandBool_request ''drone_1'' True,
        Log Error (Takeoff_failed ''drone_1'')]"
proof -
  have ok: "takeoff_ok 10 (connected_drone ''leader'' acknowledging)"
    "takeoff_ok 10 (connected_drone ''drone_1'' acknowledging)"
    "takeoff_ok 10 (connected_drone ''drone_2'' acknowledging)"
    by (simp_all add: takeoff_ok_def FormationDrone_takeoff_def FormationDrone_set_mode_def
          FormationDrone_arm_def truthy_def sample_defs)
  have bad: "\<not> takeoff_ok 10 (connected_drone ''drone_1'' arming_unanswered)"
    by (simp add: takeoff_ok_def FormationDrone_takeoff_def FormationDrone_set_mode_def
          FormationDrone_arm_def truthy_def sample_defs)
  have all: "list_all (takeoff_ok 10) (drones three_acknowledging)"
    using ok by (simp add: three_acknowledging_def controller_of_def)
  have first: "1 < length (drones second_unanswered)
      \<and> \<not> takeoff_ok 10 (drones second_unanswered ! 1)
      \<and> list_all (takeoff_ok 10) (take 1 (drones second_unanswered))"
    using ok bad by (simp add: second_unanswered_def controller_of_def)
  have a: "takeoff_formation three_acknowledging 10 =
        (True, three_acknowledging\<lparr>trace := trace three_acknowledging @ [Log Info (Formation_takeoff 10)]
           @ concat (map (vehicle_takeoff 10) (enumerate 0 (drones three_acknowledging)))
           @ [Log Info Waiting_for_altitude, Sleep 10, Log Info Takeoff_complete]\<rparr>)"
    using takeoff_formation_staggered [of 10 three_acknowledging 0] all by blast
  have b: "takeoff_formation second_unanswered 10 =
        (False, second_unanswered\<lparr>trace := trace second_unanswered @ [Log Info (Formation_takeoff 10)]
           @ concat (map (vehicle_takeoff 10) (take (Suc 1) (enumerate 0 (drones second_unanswered))))
           @ [Log Error (Takeoff_failed (drone_id (drones second_unanswered ! 1)))]\<rparr>)"
    using takeoff_formation_staggered [of 10 second_unanswered 1] first by blast
  have c: "trace (snd (takeoff_formation three_acknowledging 10)) =
       [Log Info (Formation_takeoff 10),
        Log Info (Starting_takeoff ''leader''),
        SetMode_request ''leader'' ''GUIDED'', Sleep 0.5, CommandBool_request ''leader'' True,
        Sleep 0.5, CommandTOL_request ''leader'' 10,
        Log Info (Starting_takeoff ''drone_1''), Sleep 1,
        SetMode_request ''drone_1'' ''GUIDED'', Sleep 0.5, CommandBool_request ''drone_1'' True,
        Sleep 0.5, CommandTOL_request ''drone_1'' 10,
        Log Info (Starting_takeoff ''drone_2''), Sleep 1,
        SetMode_request ''drone_2'' ''GUIDED'', Sleep 0.5, CommandBool_request ''drone_2'' True,
        Sleep 0.5, CommandTOL_request ''drone_2'' 10,
        Log Info Waiting_for_altitude, Sleep 10, Log Info Takeoff_complete]"
    unfolding a
    by (simp add: three_acknowledging_def vehicle_takeoff_def FormationDrone_takeoff_def
          FormationDrone_set_mode_def FormationDrone_arm_def truthy_def sample_defs)
  have d: "trace (snd (takeoff_formation second_unanswered 10)) =
       [Log Info (Formation_takeoff 10),
        Log Info (Starting_takeoff ''leader''),
        SetMode_request ''leader'' ''GUIDED'', Sleep 0.5, CommandBool_request ''leader'' True,
        Sleep 0.5, CommandTOL_request ''leader'' 10,
        Log Info (Starting_takeoff ''drone_1''), Sleep 1,
        SetMode_request ''drone_1'' ''GUIDED'', Sleep 0.5, CommandBool_request ''drone_1'' True,
        Log Error (Takeoff_failed ''drone_1'')]"
    unfolding b
    by (simp add: second_unanswered_def vehicle_takeoff_def FormationDrone_takeoff_def
          FormationDrone_set_mode_def FormationDrone_arm_def truthy_def sample_defs)
  show ?thesis
    using ok(1) bad c d by (simp add: a b)
qed

lemma stop_loop_eq:
  "stop_loop ds self = self\<lparr>trace := trace self @ map zero_velocity ds\<rparr>"
  by (induction ds arbitrary: self)
    (simp_all add: stop_def send_velocity_def zero_velocity_def velocity_twist_def Twist_def
       literal_zero)

text \<open>
  C8. One call of \<open>stop_formation\<close> clears \<open>formation_active\<close> and publishes a zero
  velocity to every registered drone, in order, at once; a second call right after
  it leaves \<open>formation_active\<close> cleared and publishes the zero velocities again.
  Nothing else of the controller changes and no call can fail.
\<close>

theorem stop_formation_twice:
  "stop_formation self =
     self\<lparr>formation_active := False,
          trace := trace self @ map zero_velocity (drones self) @ [Log Info Formation_stopped]\<rparr>
   \<and> stop_formation (stop_formation self) =
     self\<lparr>formation_active := False,
          trace := trace self @ map zero_velocity (drones self) @ [Log Info Formation_stopped]
                     @ map zero_velocity (drones self) @ [Log Info Formation_stopped]\<rparr>"
  by (simp add: stop_formation_def stop_loop_eq logger_def)

theorem stop_formation_twice_witness:
  "formation_active (stop_formation (stop_formation (four_drones\<lparr>formation_active := True\<rparr>))) = False
   \<and> trace (stop_formation (stop_formation (four_drones\<lparr>formation_active := True\<rparr>))) =
      [Publish ''leader'' Twist, Publish ''drone_1'' Twist, Publish ''drone_2'' Twist,
       Publish ''drone_3'' Twist, Log Info Formation_stopped,
       Publish ''leader'' Twist, Publish ''drone_1'' Twist, Publish ''drone_2'' Twist,
       Publish ''drone_3'' Twist, Log Info Formation_stopped]"
  using stop_formation_twice [of "four_drones\<lparr>formation_active := True\<rparr>", THEN conjunct2]
  by (simp add: four_drones_def controller_of_def connected_drone_def zero_velocity_def
        velocity_twist_def Twist_def)

text \<open>
  C10, as the code has it. With no drone registered, \<open>wait_for_connections\<close> decides
  in the first evaluation of its loop condition, without spinning: it returns
  \<open>True\<close> when the time elapsed there is less than the timeout, and \<open>False\<close> when
  it is not (as for every timeout that is zero or negative on a clock that does not
  run backwards).
\<close>

theorem wait_for_connections_no_drones:
  assumes "drones self = []"
  shows "(now - start_time < timeout \<longrightarrow>
      wait_for_connections self timeout start_time ((now, ready) # rounds) =
        (Some True, self\<lparr>trace := trace self
           @ [Log Info Waiting_for_connections, Log Info (All_connected 0)]\<rparr>))
    \<and> (\<not> now - start_time < timeout \<longrightarrow>
      wait_for_connections self timeout start_time ((now, ready) # rounds) =
        (Some False, self\<lparr>trace := trace self
           @ [Log Info Waiting_for_connections, Log Error Connection_timeout]\<rparr>))"
  using assms by (simp add: wait_for_connections_def logger_def)

theorem wait_for_connections_no_drones_witness:
  "drones (controller_of []) = []
   \<and> wait_for_connections (controller_of []) 30 100 [(100.5, None)] =
        (Some True, (controller_of [])\<lparr>trace :=
           [Log Info Waiting_for_connections, Log Info (All_connected 0)]\<rparr>)
   \<and> wait_for_connections (controller_of []) 0 100 [(100.5, None)] =
        (Some False, (controller_of [])\<lparr>trace :=
           [Log Info Waiting_for_connections, Log Error Connection_timeout]\<rparr>)"
proof -
  have h: "drones (controller_of []) = []" by (simp add: controller_of_def)
  show ?thesis
    using h wait_for_connections_no_drones [OF h, of "100.5" 100 30 None "[]"]
      wait_for_connections_no_drones [OF h, of "100.5" 100 0 None "[]"]
    by (simp add: controller_of_def)
qed

text \<open>
  C10, as the claim words it, fails for the timeout 0: with no drone registered the
  loop body never runs and the result is \<open>False\<close>.
\<close>

theorem wait_for_connections_no_drones_counterexample:
  "drones (controller_of []) = []
   \<and> fst (wait_for_connections (controller_of []) 0 100 [(100.5, None)]) = Some False"
  by (simp add: wait_for_connections_def logger_def controller_of_def)

section \<open>Properties of the single-vehicle controller\<close>

lemma current_alt_returns:
  "truediv (float_of_int32 relative_alt) (literal 1000) = Inr (metres relative_alt)"
  unfolding metres_def by (rule truediv_returns) (simp add: literal_thousand)

lemma takeoff_wait_scan:
  "takeoff_wait altitude start_time stable_count last_alt rounds =
     (if scan altitude stable_count last_alt (samples_in_window start_time rounds) then Some (Inr True)
      else if window_closes start_time rounds then Some (Inr False)
      else None)"
proof (induction rounds arbitrary: stable_count last_alt)
  case Nil
  show ?case
    by (simp add: samples_in_window_def window_closes_def map_filter_simps)
next
  case (Cons round rounds)
  obtain now msg where round: "round = (now, msg)" by (cases round)
  show ?case
  proof (cases "in_window start_time now")
    case False
    then show ?thesis
      by (simp add: round samples_in_window_def window_closes_def map_filter_simps
            flip: in_window_def)
  next
    case True
    show ?thesis
    proof (cases msg)
      case None
      have "samples_in_window start_time (round # rounds) = samples_in_window start_time rounds"
        using True by (simp add: round None samples_in_window_def map_filter_simps)
      moreover have "window_closes start_time (round # rounds) = window_closes start_time rounds"
        using True by (simp add: round window_closes_def)
      ultimately show ?thesis
        using True by (simp add: round None Cons.IH flip: in_window_def)
    next
      case (Some relative_alt)
      have "samples_in_window start_time (round # rounds) =
          metres relative_alt # samples_in_window start_time rounds"
        using True by (simp add: round Some samples_in_window_def map_filter_simps)
      moreover have "window_closes start_time (round # rounds) = window_closes start_time rounds"
        using True by (simp add: round window_closes_def)
      ultimately show ?thesis
        using True
        by (simp add: round Some Cons.IH Let_def current_alt_returns flip: in_window_def)
    qed
  qed
qed

lemma success_at_shift:
  "\<not> fle (fmul altitude (literal 0.90)) x \<Longrightarrow>
   success_at altitude stable_count last_alt (x # xs) (Suc k) =
     success_at altitude
       (if flt (fabs (fsub x last_alt)) (literal 0.1) then stable_count + 1 else 0) x xs k"
proof -
  consider "k = 0" | "k = 1" | j where "k = Suc (Suc j)"
    by (cases k rule: nat.exhaust; cases "k - 1"; simp) 
  then show ?thesis
  proof cases
    case 1
    then show ?thesis by (auto simp add: success_at_def step_change_def)
  next
    case 2
    then show ?thesis by (auto simp add: success_at_def step_change_def)
  next
    case 3
    then show ?thesis by (auto simp add: success_at_def step_change_def)
  qed
qed

lemma scan_success_at:
  "scan altitude stable_count last_alt samples \<longleftrightarrow>
     (\<exists>k<length samples. success_at altitude stable_count last_alt samples k)"
proof (induction samples arbitrary: stable_count last_alt)
  case Nil
  show ?case by simp
next
  case (Cons x xs)
  show ?case
  proof (cases "fle (fmul altitude (literal 0.90)) x")
    case True
    then have "success_at altitude stable_count last_alt (x # xs) 0"
      by (simp add: success_at_def)
    with True show ?thesis by auto
  next
    case False
    have zero: "success_at altitude stable_count last_alt (x # xs) 0 \<longleftrightarrow>
        flt (fabs (fsub x last_alt)) (literal 0.1) \<and> 3 \<le> stable_count + 1
          \<and> fle (fmul altitude (literal 0.85)) x"
      using False by (auto simp add: success_at_def step_change_def)
    have "(\<exists>k<length (x # xs). success_at altitude stable_count last_alt (x # xs) k) \<longleftrightarrow>
        success_at altitude stable_count last_alt (x # xs) 0
        \<or> (\<exists>k<length xs. success_at altitude stable_count last_alt (x # xs) (Suc k))"
      by (simp add: Ex_less_Suc2)
    also have "\<dots> \<longleftrightarrow> success_at altitude stable_count last_alt (x # xs) 0
        \<or> (\<exists>k<length xs. success_at altitude
              (if flt (fabs (fsub x last_alt)) (literal 0.1) then stable_count + 1 else 0) x xs k)"
      using False by (simp add: success_at_shift)
    also have "\<dots> \<longleftrightarrow> scan altitude stable_count last_alt (x # xs)"
      using False by (auto simp add: zero Cons.IH)
    finally show ?thesis by simp
  qed
qed

lemma success_at_initial:
  "success_at altitude 0 (Finite 0) samples k \<longleftrightarrow>
     reached altitude samples k \<or> stabilised altitude samples k"
  by (auto simp add: success_at_def step_change_def reached_def stabilised_def change_def)

lemma scan_takeoff_succeeds:
  "scan altitude 0 (Finite 0) samples = takeoff_succeeds altitude samples"
  by (auto simp add: scan_success_at success_at_initial takeoff_succeeds_def list_ex_iff)

text \<open>
  C3, as the code has it. \<open>takeoff\<close> sends the takeoff command, never raises, and
  returns \<open>True\<close> exactly when, within the 30-second window, some altitude sample
  has reached the target or the altitude has stabilised at some sample, both read
  in double arithmetic: the sample is at least the rounded \<open>altitude * 0.90\<close>, or
  it and the two samples before it each changed by less than the double nearest
  0.1 (the first sample measured against 0) and it is at least the rounded
  \<open>altitude * 0.85\<close>. When neither happens and the window closes it returns
  \<open>False\<close>. (\<open>None\<close> arises only when the list of rounds ends before the window
  does.)
\<close>

theorem takeoff_returns:
  "DroneController_takeoff self altitude start_time rounds =
     (if takeoff_succeeds altitude (samples_in_window start_time rounds) then Some (Inr True)
      else if window_closes start_time rounds then Some (Inr False)
      else None,
      self\<lparr>sent := sent self @
        [COMMAND_LONG (target_system self) (target_component self) MAV_CMD_NAV_TAKEOFF 0
           [Finite 0, Finite 0, Finite 0, Finite 0, Finite 0, Finite 0, altitude]]\<rparr>)"
  by (simp add: DroneController_takeoff_def takeoff_wait_scan scan_takeoff_succeeds)

lemmas takeoff_evaluation =
  takeoff_succeeds_def samples_in_window_def in_window_def window_closes_def metres_def
  reached_def stabilised_def change_def map_filter_simps double_evaluation

theorem takeoff_returns_witness:
  "fst (DroneController_takeoff vehicle (Finite 10) (Finite 0) climbs_to_9_1) = Some (Inr True)
   \<and> fst (DroneController_takeoff vehicle (Finite 10) (Finite 0) stuck_at_5) = Some (Inr False)
   \<and> fst (DroneController_takeoff vehicle (Finite 10) (Finite 0) settles_at_8_7) = Some (Inr True)
   \<and> fst (DroneController_takeoff vehicle (Finite 10) (Finite 0) three_samples_at_8_7)
        = Some (Inr False)
   \<and> fst (DroneController_takeoff vehicle (Finite 10) (Finite 0) (take 3 stuck_at_5)) = None
   \<and> fst (DroneController_takeoff vehicle (Finite 10) (Finite 0) rises_to_8_6) = Some (Inr True)
   \<and> fst (DroneController_takeoff vehicle (Finite 5) (Finite 0) rises_to_4_35) = Some (Inr True)"
proof -
  have a: "takeoff_succeeds (Finite 10) (samples_in_window (Finite 0) climbs_to_9_1)"
    by (simp add: climbs_to_9_1_def takeoff_evaluation)
  have b: "\<not> takeoff_succeeds (Finite 10) (samples_in_window (Finite 0) stuck_at_5)"
    "window_closes (Finite 0) stuck_at_5"
    by (simp_all add: stuck_at_5_def takeoff_evaluation)
  have c: "takeoff_succeeds (Finite 10) (samples_in_window (Finite 0) settles_at_8_7)"
    by (simp add: settles_at_8_7_def takeoff_evaluation)
  have d: "\<not> takeoff_succeeds (Finite 10) (samples_in_window (Finite 0) three_samples_at_8_7)"
    "window_closes (Finite 0) three_samples_at_8_7"
    by (simp_all add: three_samples_at_8_7_def takeoff_evaluation)
  have e: "\<not> takeoff_succeeds (Finite 10) (samples_in_window (Finite 0) (take 3 stuck_at_5))"
    "\<not> window_closes (Finite 0) (take 3 stuck_at_5)"
    by (simp_all add: stuck_at_5_def takeoff_evaluation)
  have f: "takeoff_succeeds (Finite 10) (samples_in_window (Finite 0) rises_to_8_6)"
    by (simp add: rises_to_8_6_def takeoff_evaluation)
  have g: "takeoff_succeeds (Finite 5) (samples_in_window (Finite 0) rises_to_4_35)"
    by (simp add: rises_to_4_35_def takeoff_evaluation)
  show ?thesis
    using takeoff_returns [of vehicle "Finite 10" "Finite 0" climbs_to_9_1]
      takeoff_returns [of vehicle "Finite 10" "Finite 0" stuck_at_5]
      takeoff_returns [of vehicle "Finite 10" "Finite 0" settles_at_8_7]
      takeoff_returns [of vehicle "Finite 10" "Finite 0" three_samples_at_8_7]
      takeoff_returns [of vehicle "Finite 10" "Finite 0" "take 3 stuck_at_5"]
      takeoff_returns [of vehicle "Finite 10" "Finite 0" rises_to_8_6]
      takeoff_returns [of vehicle "Finite 5" "Finite 0" rises_to_4_35]
      a b c d e f g
    by simp
qed

text \<open>
  C3, as the claim words it, fails in both directions. For the target 13 m a
  sample of 11700 mm is exactly 0.9 times the target, yet the rounded product
  \<open>13 * 0.90\<close> lies above the rounded sample and \<open>takeoff\<close> returns \<open>False\<close>. For
  the target 10 m the samples 8.4, 8.5, 8.6, 8.5 m all stay below 0.9 times the
  target and each differs from the one before it by exactly 0.1 m, not by less,
  yet every rounded difference is below the double nearest 0.1 and \<open>takeoff\<close>
  returns \<open>True\<close>.
\<close>

theorem takeoff_returns_counterexample:
  "exact_metres 11700 \<ge> 0.9 * 13
   \<and> fst (DroneController_takeoff vehicle (Finite 13) (Finite 0) reaches_11_7) = Some (Inr False)
   \<and> exact_metres 8400 < 0.9 * 10 \<and> exact_metres 8500 < 0.9 * 10 \<and> exact_metres 8600 < 0.9 * 10
   \<and> \<bar>exact_metres 8500 - exact_metres 8400\<bar> = 0.1
   \<and> \<bar>exact_metres 8600 - exact_metres 8500\<bar> = 0.1
   \<and> \<bar>exact_metres 8500 - exact_metres 8600\<bar> = 0.1
   \<and> fst (DroneController_takeoff vehicle (Finite 10) (Finite 0) steps_of_a_tenth) = Some (Inr True)"
proof -
  have a: "\<not> scan (Finite 13) 0 (Finite 0) (samples_in_window (Finite 0) reaches_11_7)"
    "window_closes (Finite 0) reaches_11_7"
    by (simp_all add: reaches_11_7_def takeoff_evaluation)
  have b: "scan (Finite 10) 0 (Finite 0) (samples_in_window (Finite 0) steps_of_a_tenth)"
    by (simp add: steps_of_a_tenth_def takeoff_evaluation)
  show ?thesis
    using a b by (simp add: DroneController_takeoff_def takeoff_wait_scan exact_metres_def)
qed

lemma land_wait_step:
  "land_wait heartbeats n =
     (if disarmed (heartbeats n) then Some True else land_wait heartbeats (Suc n))"
  by (subst land_wait.simps) (simp add: disarmed_def split: option.split)

lemma land_wait_found:
  "disarmed (heartbeats (n + k)) \<Longrightarrow> land_wait heartbeats n = Some True"
proof (induction k arbitrary: n)
  case 0
  then show ?case by (subst land_wait_step) simp
next
  case (Suc k)
  from Suc.prems have "disarmed (heartbeats (Suc n + k))" by simp
  then have "land_wait heartbeats (Suc n) = Some True" by (rule Suc.IH)
  then show ?case by (subst land_wait_step) simp
qed

lemma land_wait_returns:
  assumes "land_wait heartbeats n = Some result"
  shows "result \<and> (\<exists>k. disarmed (heartbeats (n + k)))"
proof (rule land_wait.raw_induct
    [where P = "\<lambda>stream m r. r \<and> (\<exists>k. disarmed (stream (m + k)))", OF _ assms])
  fix land_wait' :: "(nat \<Rightarrow> 8 word option) \<Rightarrow> nat \<Rightarrow> bool option"
    and stream m r
  assume IH: "\<And>stream m r. land_wait' stream m = Some r \<Longrightarrow>
      r \<and> (\<exists>k. disarmed (stream (m + k)))"
    and body: "(case stream m of
        None \<Rightarrow> land_wait' stream (Suc m)
      | Some base_mode \<Rightarrow>
          if \<not> (base_mode AND MAV_MODE_FLAG_SAFETY_ARMED \<noteq> 0) then Some True
          else land_wait' stream (Suc m)) = Some r"
  show "r \<and> (\<exists>k. disarmed (stream (m + k)))"
  proof (cases "disarmed (stream m)")
    case True
    with body have "r" by (simp add: disarmed_def split: option.splits if_splits)
    moreover from True have "disarmed (stream (m + 0))" by simp
    ultimately show ?thesis by blast
  next
    case False
    with body have "land_wait' stream (Suc m) = Some r"
      by (simp add: disarmed_def split: option.splits if_splits)
    from IH [OF this] obtain k where "r" and "disarmed (stream (Suc m + k))"
      by blast
    then have "disarmed (stream (m + Suc k))" by simp
    with \<open>r\<close> show ?thesis by blast
  qed
qed

lemma land_wait_eq:
  "land_wait heartbeats 0 = (if \<exists>n. disarmed (heartbeats n) then Some True else None)"
proof (cases "\<exists>n. disarmed (heartbeats n)")
  case True
  then obtain n where "disarmed (heartbeats (0 + n))" by auto
  then have "land_wait heartbeats 0 = Some True" by (rule land_wait_found)
  with True show ?thesis by simp
next
  case False
  have "land_wait heartbeats 0 = None"
  proof (cases "land_wait heartbeats 0")
    case None
    then show ?thesis .
  next
    case (Some result)
    from land_wait_returns [OF this] False show ?thesis by auto
  qed
  with False show ?thesis by simp
qed

text \<open>
  C9. \<open>land\<close> commands LAND mode and then returns, with \<open>True\<close>, exactly when some
  poll yields a heartbeat whose armed bit is clear; on every stream without such a
  heartbeat the call never returns. It has no other result.
\<close>

theorem land_returns_iff_disarmed:
  "DroneController_land self heartbeats =
     (if \<exists>n. disarmed (heartbeats n)
      then Some (True, self\<lparr>sent := sent self @
             [SET_MODE (target_system self) MAV_MODE_FLAG_CUSTOM_MODE_ENABLED 9]\<rparr>)
      else None)"
  by (simp add: DroneController_land_def DroneController_set_mode_def mode_mapping_def
        land_wait_eq)

theorem land_returns_iff_disarmed_witness:
  "DroneController_land vehicle disarms_in_round_3 =
     Some (True, \<lparr>target_system = 1, target_component = 1, sent = [SET_MODE 1 1 9]\<rparr>)
   \<and> DroneController_land vehicle stays_armed = None"
proof -
  have "disarmed (disarms_in_round_3 3)"
    by (simp add: disarmed_def disarms_in_round_3_def MAV_MODE_FLAG_SAFETY_ARMED_def)
  then have a: "\<exists>n. disarmed (disarms_in_round_3 n)" ..
  have b: "\<not> (\<exists>n. disarmed (stays_armed n))"
    by (simp add: disarmed_def stays_armed_def MAV_MODE_FLAG_SAFETY_ARMED_def)
  show ?thesis
    using land_returns_iff_disarmed [of vehicle disarms_in_round_3]
      land_returns_iff_disarmed [of vehicle stays_armed] a b
    by (simp add: vehicle_def MAV_MODE_FLAG_CUSTOM_MODE_ENABLED_def)
qed

end
